theory Spec2Isabelle
  imports Main "HOL-Library.AList"
begin

section \<open>Thrown errors and the Result type\<close>

text \<open>
  A JavaScript \<open>throw\<close> (and a rejected promise that is awaited) is the left injection of a
  sum: an operation of type \<open>exn + 'a\<close> either throws (\<open>Inl\<close>) or returns (\<open>Inr\<close>).
  \<open>JsonWebTokenError\<close> and its subclass \<open>TokenExpiredError\<close> are the two error classes of the
  jsonwebtoken library that the service tells apart from a plain \<open>Error\<close>.

  Strings are lists of characters; one \<open>char\<close> stands for one UTF-16 code unit of the
  Latin-1 range, so \<open>length\<close> is JavaScript's \<open>.length\<close> on such strings.
\<close>

datatype exn = Error string | JsonWebTokenError string | TokenExpiredError string

type_synonym details = "(string \<times> string) list"

text \<open>
  \<open>class Result<T>\<close> (types/Result.ts). The constructor is private: a Result is built by
  the static \<open>success(data)\<close>, which sets \<open>_isSuccess = true\<close> and \<open>_data\<close>, or by
  \<open>failure(error, errorDetails?)\<close>, which sets \<open>_isSuccess = false\<close>, \<open>_error\<close> and the
  optional \<open>_errorDetails\<close>. These are the two constructors of the datatype.
\<close>

datatype 'a Result = success 'a | failure string "details option"



text \<open>The getters \<open>data\<close> and \<open>error\<close>: each throws on the other kind of Result.\<close>

fun data :: "'a Result \<Rightarrow> exn + 'a" where
  "data (failure e ed) = Inl (Error ''Cannot access data from a failed result'')"
| "data (success d) = Inr d"

fun error :: "'a Result \<Rightarrow> exn + string" where
  "error (success d) = Inl (Error ''Cannot access error from a successful result'')"
| "error (failure e ed) = Inr e"

fun errorDetails :: "'a Result \<Rightarrow> details option" where
  "errorDetails (success d) = None"
| "errorDetails (failure e ed) = ed"

fun flatMap :: "('a \<Rightarrow> 'b Result) \<Rightarrow> 'a Result \<Rightarrow> 'b Result" where
  "flatMap fn (success d) = fn d"
| "flatMap fn (failure e ed) = failure e ed"

fun unwrapOr :: "'a \<Rightarrow> 'a Result \<Rightarrow> 'a" where
  "unwrapOr defaultValue (success d) = d"
| "unwrapOr defaultValue (failure e ed) = defaultValue"

fun unwrapOrThrow :: "'a Result \<Rightarrow> exn + 'a" where
  "unwrapOrThrow (success d) = Inr d"
| "unwrapOrThrow (failure e ed) = Inl (Error e)"

section \<open>Entities with an audit trail (base/BaseEntity.ts)\<close>

datatype AuditAction = CREATE | UPDATE | DELETE | VIEW | EXPORT

text \<open>
  The values a property of an entity can hold, as far as this development needs them, and
  the entries of the audit log (\<open>interface AuditEntry\<close>). An entry's \<open>changes\<close> maps a
  property name to its \<open>{from, to}\<close> pair. The clock is a number (\<open>new Date()\<close> is a
  parameter \<open>now\<close> of every operation that reads it).

  A Date and an array are objects: JavaScript holds a reference to them, and \<open>===\<close> and
  \<open>!==\<close> compare the references, not the contents. \<open>VDate r t\<close> is the Date object at
  reference \<open>r\<close> whose time is \<open>t\<close>, and \<open>VLog r l\<close> is the array at reference \<open>r\<close> whose
  elements are \<open>l\<close> (those it had when the value was read: \<open>push\<close> changes the elements
  of an array and not its reference). An operation that allocates an object that can be
  compared later takes the reference of the new object as a parameter, like the clock.

  A number is an IEEE 754 double. The numbers of this development are integer-valued:
  \<open>VNum n\<close> is the double whose value is the integer \<open>n\<close> (every integer from \<open>-2^53\<close> to
  \<open>2^53\<close> is a double; beyond, only the multiples of a power of two are). Fractions, NaN
  and the infinities are not modelled.

  A password hash is a string that bcryptjs (an external library) produced. It is kept
  symbolic: \<open>Bcrypt rounds password\<close> is a hash of \<open>password\<close> at that cost factor, and
  \<open>NotAHash s\<close> is any other string.
\<close>

type_synonym objref = nat

datatype hash = Bcrypt nat string | NotAHash string

datatype jsval = VUndefined | VNull | VBool bool | VNum int | VStr string | VDate objref nat
  | VHash hash | VLog objref "AuditEntry list"
and AuditEntry = AuditEntry (timestamp: nat) (userId: string) (action: AuditAction)
  (changes: "(string \<times> jsval \<times> jsval) list") (metadata: "details option")







definition optStr :: "string option \<Rightarrow> jsval" where
  "optStr x = (case x of None \<Rightarrow> VUndefined | Some s \<Rightarrow> VStr s)"
















section \<open>Input validation of the authentication service\<close>

text \<open>
  The character classes of the regular expressions in AuthService.ts: \<open>[A-Z]\<close>, \<open>[a-z]\<close>,
  \<open>\d\<close>, and \<open>\s\<close> (in the Latin-1 range: tab, line feed, vertical tab, form feed,
  carriage return, space, no-break space).
\<close>

definition upperAZ :: string where "upperAZ = ''ABCDEFGHIJKLMNOPQRSTUVWXYZ''"
definition lowerAZ :: string where "lowerAZ = ''abcdefghijklmnopqrstuvwxyz''"
definition digits :: string where "digits = ''0123456789''"

definition isSpace :: "char \<Rightarrow> bool" where
  "isSpace c = (c \<in> set [CHR 0x09, CHR 0x0A, CHR 0x0B, CHR 0x0C, CHR 0x0D, CHR 0x20, CHR 0xA0])"

text \<open>\<open>regex.test(s)\<close> for a one-character class: some character of \<open>s\<close> is in the class.\<close>

definition hasCharIn :: "string \<Rightarrow> string \<Rightarrow> bool" where
  "hasCharIn cls s = list_ex (\<lambda>c. c \<in> set cls) s"

text \<open>
  \<open>String.prototype.toUpperCase\<close> on the letters a to z; every other character is left as
  it is (a Latin-1 letter outside ASCII maps to no ASCII letter other than S, and no role
  name has two S in a row, so the role tests below are the source's on such strings too).
\<close>

definition toUpperChar :: "char \<Rightarrow> char" where
  "toUpperChar c = (case map_of (zip lowerAZ upperAZ) c of None \<Rightarrow> c | Some u \<Rightarrow> u)"

definition toUpperCase :: "string \<Rightarrow> string" where
  "toUpperCase s = map toUpperChar s"

definition trim :: "string \<Rightarrow> string" where
  "trim s = rev (dropWhile isSpace (rev (dropWhile isSpace s)))"

fun join :: "string \<Rightarrow> string list \<Rightarrow> string" where
  "join sep [] = []"
| "join sep [x] = x"
| "join sep (x # y # ys) = x @ sep @ join sep (y # ys)"

text \<open>
  \<open>isValidEmail\<close>: the test of \<open>/^[^\s@]+@[^\s@]+\.[^\s@]+$/\<close>. The first group is the
  longest run of characters that are neither white space nor \<open>@\<close>; it must be non-empty and
  be followed by \<open>@\<close>. What follows must consist of such characters only and have a dot
  that is neither its first nor its last character.
\<close>

definition emailChar :: "char \<Rightarrow> bool" where
  "emailChar c = (\<not> isSpace c \<and> c \<noteq> CHR ''@'')"

definition isValidEmail :: "string \<Rightarrow> bool" where
  "isValidEmail email =
     (takeWhile emailChar email \<noteq> [] \<and>
      (case dropWhile emailChar email of
         [] \<Rightarrow> False
       | c # host \<Rightarrow> c = CHR ''@'' \<and> list_all emailChar host \<and> CHR ''.'' \<in> set (butlast (tl host))))"

text \<open>\<open>AuthService.validatePassword\<close>: four checks in order, the first failure is returned.\<close>

definition validatePassword :: "string \<Rightarrow> bool Result" where
  "validatePassword password =
     (if length password < 8 then failure ''Password must be at least 8 characters long'' None
      else if \<not> hasCharIn upperAZ password
        then failure ''Password must contain at least one uppercase letter'' None
      else if \<not> hasCharIn lowerAZ password
        then failure ''Password must contain at least one lowercase letter'' None
      else if \<not> hasCharIn digits password
        then failure ''Password must contain at least one number'' None
      else success True)"



text \<open>\<open>interface RegisterRequest\<close>; the optional fields are options.\<close>

record RegisterRequest =
  reg_email :: string
  reg_password :: string
  reg_firstName :: string
  reg_lastName :: string
  reg_phone :: "string option"
  reg_role :: string
  reg_schoolId :: "string option"
  reg_additionalData :: "(string \<times> jsval) list option"

definition acceptedRoles :: "string list" where
  "acceptedRoles = [''TEACHER'', ''STUDENT'', ''ADMIN'', ''SCHOOL_ADMIN'']"

text \<open>
  \<open>validateRegistrationRequest\<close>: the errors are collected in the order of the source and
  joined with a comma and a space. \<open>!s\<close> on a string is true for the empty string.
\<close>

definition validateRegistrationRequest :: "RegisterRequest \<Rightarrow> bool Result" where
  "validateRegistrationRequest request =
     (let errors =
        (if reg_email request = [] \<or> \<not> isValidEmail (reg_email request)
           then [''Valid email is required''] else []) @
        (if reg_password request = [] then [''Password is required'']
         else (case validatePassword (reg_password request) of
                 failure e ed \<Rightarrow> [e]
               | success b \<Rightarrow> [])) @
        (if reg_firstName request = [] \<or> length (trim (reg_firstName request)) < 2
           then [''First name must be at least 2 characters''] else []) @
        (if reg_lastName request = [] \<or> length (trim (reg_lastName request)) < 2
           then [''Last name must be at least 2 characters''] else []) @
        (if reg_role request = [] \<or> toUpperCase (reg_role request) \<notin> set acceptedRoles
           then [''Valid role is required''] else [])
      in if length errors > 0 then failure (join '', '' errors) None else success True)"

section \<open>The user aggregate\<close>

text \<open>
  Modelled from the spec: the User aggregate. The class \<open>User\<close> and its subclasses
  (models/User.ts) are not among the sources; the service reads \<open>id\<close>, \<open>email\<close>,
  \<open>passwordHash\<close>, \<open>role\<close>, \<open>schoolId\<close>, \<open>isActive\<close>, \<open>isVerified\<close> and \<open>isLocked\<close> and calls
  \<open>canLogin\<close>, \<open>recordFailedLogin\<close>, \<open>recordSuccessfulLogin\<close> and \<open>resetPassword\<close>. The
  record has the identity, credential, profile, lifecycle flags and login bookkeeping of
  section 3 of the specification; the audit trail a user inherits from AuditableEntity is
  the subject of the section above and is left out of this record. The field \<open>id\<close> is
  \<open>uid\<close> here (\<open>id\<close> is HOL's identity function).
\<close>

record User =
  uid :: string
  email :: string
  passwordHash :: hash
  role :: string
  schoolId :: "string option"
  isActive :: bool
  isVerified :: bool
  failedLoginAttempts :: nat
  lastFailedLoginAt :: "nat option"
  lastLoginAt :: "nat option"

text \<open>
  Modelled from the spec: the lockout threshold, a fixed 5 consecutive failed logins
  (section 4.2).
\<close>

definition lockoutThreshold :: nat where
  "lockoutThreshold = 5"

text \<open>
  Modelled from the spec: \<open>isLocked\<close> is a pure function of the failed-attempt counter and
  the threshold (section 3); the account is locked when the counter reaches the threshold.
\<close>

definition isLocked :: "User \<Rightarrow> bool" where
  "isLocked u = (failedLoginAttempts u \<ge> lockoutThreshold)"

text \<open>
  Modelled from the spec: a user may only authenticate when simultaneously active,
  verified and unlocked (section 4.2).
\<close>

definition canLogin :: "User \<Rightarrow> bool" where
  "canLogin u = (isActive u \<and> isVerified u \<and> \<not> isLocked u)"

text \<open>
  Modelled from the spec: on a password mismatch the failure counter is incremented
  (section 4.3, login, step 4) and the instant of the failed attempt is kept (section 3).
\<close>

definition recordFailedLogin :: "nat \<Rightarrow> User \<Rightarrow> User" where
  "recordFailedLogin now u =
     u\<lparr>failedLoginAttempts := failedLoginAttempts u + 1, lastFailedLoginAt := Some now\<rparr>"

text \<open>
  Modelled from the spec: any successful authentication resets the consecutive-failure
  counter to 0 and records the login timestamp (section 4.2).
\<close>

definition recordSuccessfulLogin :: "nat \<Rightarrow> User \<Rightarrow> User" where
  "recordSuccessfulLogin now u = u\<lparr>failedLoginAttempts := 0, lastLoginAt := Some now\<rparr>"

text \<open>
  Modelled from the spec: \<open>resetPassword(newHash, by)\<close> stores the new hash (section 4.3,
  changePassword, step 3).
\<close>

definition resetPassword :: "hash \<Rightarrow> string \<Rightarrow> nat \<Rightarrow> User \<Rightarrow> User" where
  "resetPassword newHash by now u = u\<lparr>passwordHash := newHash\<rparr>"

text \<open>
  Modelled from the spec: the explicit unlock action, which resets the counter to 0
  (section 4.2). The sources define no operation that performs it.
\<close>

definition unlock :: "User \<Rightarrow> User" where
  "unlock u = u\<lparr>failedLoginAttempts := 0\<rparr>"

section \<open>The libraries: bcryptjs and jsonwebtoken\<close>

text \<open>
  \<open>bcrypt.hash(password, rounds)\<close> and \<open>bcrypt.compare(password, hash)\<close> on symbolic
  hashes: \<open>compare\<close> is true exactly on a hash of that password.
\<close>

definition bcrypt_hash :: "string \<Rightarrow> nat \<Rightarrow> hash" where
  "bcrypt_hash password rounds = Bcrypt rounds password"

fun bcrypt_compare :: "string \<Rightarrow> hash \<Rightarrow> bool" where
  "bcrypt_compare password (Bcrypt rounds hashed) = (password = hashed)"
| "bcrypt_compare password (NotAHash s) = False"

text \<open>
  \<open>interface TokenPayload\<close>. The service builds a \<open>Partial<TokenPayload>\<close> without \<open>iat\<close>
  and \<open>exp\<close>; \<open>jwt.sign\<close> adds them. Instants are in seconds.
\<close>

record TokenPayload =
  tp_userId :: string
  tp_email :: string
  tp_role :: string
  tp_schoolId :: "string option"
  tp_iat :: "nat option"
  tp_exp :: "nat option"

text \<open>
  A token is a string. It is kept symbolic: \<open>Signed payload key\<close> is the token that
  \<open>jwt.sign\<close> makes of the payload with that key, \<open>Malformed s\<close> is any other string.
  \<open>jwt.sign\<close> throws a plain Error on an empty key. \<open>jwt.verify\<close> throws a
  JsonWebTokenError on a string that is no token, on an empty key and on a token signed
  with another key, and a TokenExpiredError once the clock has reached \<open>exp\<close>.
\<close>

datatype token = Signed TokenPayload string | Malformed string

definition jwt_sign :: "TokenPayload \<Rightarrow> string \<Rightarrow> nat \<Rightarrow> nat \<Rightarrow> exn + token" where
  "jwt_sign payload secret expiresIn now =
     (if secret = [] then Inl (Error ''secretOrPrivateKey must have a value'')
      else Inr (Signed (payload\<lparr>tp_iat := Some now, tp_exp := Some (now + expiresIn)\<rparr>) secret))"

fun jwt_verify :: "token \<Rightarrow> string \<Rightarrow> nat \<Rightarrow> exn + TokenPayload" where
  "jwt_verify (Malformed s) secret now = Inl (JsonWebTokenError ''jwt malformed'')"
| "jwt_verify (Signed payload k) secret now =
     (if secret = [] then Inl (JsonWebTokenError ''secret or public key must be provided'')
      else if k \<noteq> secret then Inl (JsonWebTokenError ''invalid signature'')
      else (case tp_exp payload of
              None \<Rightarrow> Inr payload
            | Some e \<Rightarrow> if now \<ge> e then Inl (TokenExpiredError ''jwt expired'') else Inr payload))"

text \<open>\<open>error instanceof jwt.JsonWebTokenError\<close>: TokenExpiredError is a subclass.\<close>

fun isJsonWebTokenError :: "exn \<Rightarrow> bool" where
  "isJsonWebTokenError (JsonWebTokenError m) = True"
| "isJsonWebTokenError (TokenExpiredError m) = True"
| "isJsonWebTokenError (Error m) = False"

section \<open>The user store\<close>

text \<open>
  The user classes' constructors are not among the sources. The object \<open>register\<close> builds
  is kept as the class it instantiates and the object literal it passes to the
  constructor, a property list.
\<close>

datatype UserClass = TeacherUser | StudentUser | AdminUser

datatype NewUser = NewUser UserClass "(string \<times> jsval) list"

text \<open>
  \<open>interface IUserRepository\<close>, the store the service is constructed with, is a parameter:
  a record of operations over a store state \<open>'s\<close>. An operation takes the state, returns
  the new one, and either throws (a rejected promise) or returns a Result.
\<close>

record 's IUserRepository =
  findByEmail :: "string \<Rightarrow> 's \<Rightarrow> (exn + User option Result) \<times> 's"
  findById :: "string \<Rightarrow> 's \<Rightarrow> (exn + User option Result) \<times> 's"
  create :: "NewUser \<Rightarrow> 's \<Rightarrow> (exn + User Result) \<times> 's"
  update :: "string \<Rightarrow> User \<Rightarrow> 's \<Rightarrow> (exn + User Result) \<times> 's"

section \<open>BaseService and AuthService\<close>

text \<open>
  The fields of BaseService and AuthService that the operations read. The logger and the
  health checks have no part in what the operations return and are left out.
\<close>

record 's AuthService =
  serviceName :: string
  isInitialized :: bool
  isShuttingDown :: bool
  jwtSecret :: string
  jwtRefreshSecret :: string
  userRepository :: "'s IUserRepository"

definition saltRounds :: nat where "saltRounds = 12"

text \<open>\<open>accessTokenExpiry = '15m'\<close> and \<open>refreshTokenExpiry = '7d'\<close>, in seconds.\<close>

definition accessTokenExpiry :: nat where "accessTokenExpiry = 15 * 60"
definition refreshTokenExpiry :: nat where "refreshTokenExpiry = 7 * 24 * 60 * 60"

text \<open>The constructor: \<open>super('AuthService', logger)\<close> and the two secrets.\<close>

definition AuthService_new :: "'s IUserRepository \<Rightarrow> string \<Rightarrow> string \<Rightarrow> 's AuthService" where
  "AuthService_new repo secret refreshSecret =
     \<lparr> serviceName = ''AuthService'', isInitialized = False, isShuttingDown = False,
       jwtSecret = secret, jwtRefreshSecret = refreshSecret, userRepository = repo \<rparr>"

text \<open>
  \<open>BaseService.initialize\<close> and \<open>shutdown\<close>. \<open>doInitialize\<close> and \<open>doShutdown\<close> of
  AuthService register a health check and write to the log; they do not throw.
\<close>

definition initialize :: "'s AuthService \<Rightarrow> 's AuthService" where
  "initialize svc = (if isInitialized svc then svc else svc\<lparr>isInitialized := True\<rparr>)"

definition shutdown :: "'s AuthService \<Rightarrow> 's AuthService" where
  "shutdown svc =
     (if isShuttingDown svc then svc else svc\<lparr>isShuttingDown := True, isInitialized := False\<rparr>)"

definition isReady :: "'s AuthService \<Rightarrow> bool" where
  "isReady svc = (isInitialized svc \<and> \<not> isShuttingDown svc)"

definition validateReady :: "'s AuthService \<Rightarrow> exn + unit" where
  "validateReady svc =
     (if \<not> isReady svc then Inl (Error (''Service '' @ serviceName svc @ '' is not ready''))
      else Inr ())"

section \<open>The operations of AuthService\<close>

text \<open>
  Every public operation calls \<open>validateReady\<close> first, outside its \<open>try\<close>: a service that
  is not ready throws. The body of the \<open>try\<close> is a definition of its own (\<open>_try\<close>), in
  which a throwing step ends the body with \<open>Inl\<close>; the operation then applies its
  \<open>catch\<close> clause.
\<close>

record LoginRequest =
  login_email :: string
  login_password :: string

record LoginResponse =
  resp_user :: User
  resp_accessToken :: token
  resp_refreshToken :: token
  resp_expiresIn :: nat

definition generateAccessToken :: "'s AuthService \<Rightarrow> nat \<Rightarrow> User \<Rightarrow> exn + token" where
  "generateAccessToken svc now user =
     jwt_sign \<lparr> tp_userId = uid user, tp_email = email user, tp_role = role user,
                tp_schoolId = schoolId user, tp_iat = None, tp_exp = None \<rparr>
       (jwtSecret svc) accessTokenExpiry now"

definition generateRefreshToken :: "'s AuthService \<Rightarrow> nat \<Rightarrow> User \<Rightarrow> exn + token" where
  "generateRefreshToken svc now user =
     jwt_sign \<lparr> tp_userId = uid user, tp_email = email user, tp_role = role user,
                tp_schoolId = None, tp_iat = None, tp_exp = None \<rparr>
       (jwtRefreshSecret svc) refreshTokenExpiry now"

text \<open>
  The eligibility check of \<open>login\<close> (lines 139 to 150): the message the call returns with,
  or \<open>None\<close> when the flow goes on to the password.
\<close>

definition loginRefusal :: "User \<Rightarrow> string option" where
  "loginRefusal user =
     (if \<not> canLogin user then
        (if isLocked user then Some ''Account is locked due to multiple failed attempts''
         else if \<not> isActive user then Some ''Account is inactive''
         else if \<not> isVerified user then Some ''Account is not verified''
         else None)
      else None)"

definition issueTokens ::
  "'s AuthService \<Rightarrow> nat \<Rightarrow> User \<Rightarrow> 's \<Rightarrow> (exn + LoginResponse Result) \<times> 's" where
  "issueTokens svc now user st =
     (case generateAccessToken svc now user of
        Inl err \<Rightarrow> (Inl err, st)
      | Inr accessToken \<Rightarrow>
          (case generateRefreshToken svc now user of
             Inl err \<Rightarrow> (Inl err, st)
           | Inr refreshToken \<Rightarrow>
               (Inr (success \<lparr> resp_user = user, resp_accessToken = accessToken,
                                resp_refreshToken = refreshToken, resp_expiresIn = 15 * 60 \<rparr>), st)))"

definition login_try ::
  "'s AuthService \<Rightarrow> nat \<Rightarrow> LoginRequest \<Rightarrow> 's \<Rightarrow> (exn + LoginResponse Result) \<times> 's" where
  "login_try svc now request st =
     (case findByEmail (userRepository svc) (login_email request) st of
        (Inl err, st1) \<Rightarrow> (Inl err, st1)
      | (Inr (failure e ed), st1) \<Rightarrow> (Inr (failure ''Authentication failed'' None), st1)
      | (Inr (success None), st1) \<Rightarrow> (Inr (failure ''Authentication failed'' None), st1)
      | (Inr (success (Some user)), st1) \<Rightarrow>
          (case loginRefusal user of
             Some msg \<Rightarrow> (Inr (failure msg None), st1)
           | None \<Rightarrow>
               if \<not> bcrypt_compare (login_password request) (passwordHash user) then
                 (let user1 = recordFailedLogin now user in
                  case update (userRepository svc) (uid user1) user1 st1 of
                    (Inl err, st2) \<Rightarrow> (Inl err, st2)
                  | (Inr r, st2) \<Rightarrow> (Inr (failure ''Authentication failed'' None), st2))
               else
                 (let user1 = recordSuccessfulLogin now user in
                  case update (userRepository svc) (uid user1) user1 st1 of
                    (Inl err, st2) \<Rightarrow> (Inl err, st2)
                  | (Inr r, st2) \<Rightarrow> issueTokens svc now user1 st2)))"

definition login ::
  "'s AuthService \<Rightarrow> nat \<Rightarrow> LoginRequest \<Rightarrow> 's \<Rightarrow> (exn + LoginResponse Result) \<times> 's" where
  "login svc now request st =
     (case validateReady svc of
        Inl err \<Rightarrow> (Inl err, st)
      | Inr ready \<Rightarrow>
          (case login_try svc now request st of
             (Inl err, st') \<Rightarrow> (Inr (failure ''Authentication failed'' None), st')
           | (Inr r, st') \<Rightarrow> (Inr r, st')))"

text \<open>
  The object literals of \<open>register\<close>. A spread \<open>...request.additionalData\<close> comes last and
  overrides a property of the same name; spreading \<open>undefined\<close> adds nothing.
\<close>

definition spread :: "(string \<times> jsval) list option \<Rightarrow> (string \<times> jsval) list \<Rightarrow> (string \<times> jsval) list" where
  "spread extra obj =
     (case extra of None \<Rightarrow> obj | Some kvs \<Rightarrow> fold (\<lambda>kv. AList.update (fst kv) (snd kv)) kvs obj)"

definition commonProps :: "RegisterRequest \<Rightarrow> hash \<Rightarrow> (string \<times> jsval) list" where
  "commonProps request pwHash =
     [(''email'', VStr (reg_email request)),
      (''passwordHash'', VHash pwHash),
      (''firstName'', VStr (reg_firstName request)),
      (''lastName'', VStr (reg_lastName request)),
      (''phone'', optStr (reg_phone request)),
      (''schoolId'', optStr (reg_schoolId request))]"

text \<open>The \<open>switch (request.role.toUpperCase())\<close>; \<open>None\<close> is its \<open>default\<close> branch.\<close>

definition userForRole :: "RegisterRequest \<Rightarrow> hash \<Rightarrow> NewUser option" where
  "userForRole request pwHash =
     (let r = toUpperCase (reg_role request) in
      if r = ''TEACHER'' then
        Some (NewUser TeacherUser (spread (reg_additionalData request) (commonProps request pwHash)))
      else if r = ''STUDENT'' then
        Some (NewUser StudentUser (spread (reg_additionalData request) (commonProps request pwHash)))
      else if r = ''ADMIN'' \<or> r = ''SCHOOL_ADMIN'' then
        Some (NewUser AdminUser
          (spread (reg_additionalData request)
             (commonProps request pwHash @ [(''adminLevel'', VStr ''SCHOOL'')])))
      else None)"

definition register_try ::
  "'s AuthService \<Rightarrow> RegisterRequest \<Rightarrow> 's \<Rightarrow> (exn + User Result) \<times> 's" where
  "register_try svc request st =
     (case validateRegistrationRequest request of
        failure e ed \<Rightarrow> (Inr (failure e ed), st)
      | success valid \<Rightarrow>
          (case findByEmail (userRepository svc) (reg_email request) st of
             (Inl err, st1) \<Rightarrow> (Inl err, st1)
           | (Inr (success (Some existing)), st1) \<Rightarrow>
               (Inr (failure ''User with this email already exists'' None), st1)
           | (Inr existingUserResult, st1) \<Rightarrow>
               (case userForRole request (bcrypt_hash (reg_password request) saltRounds) of
                  None \<Rightarrow> (Inr (failure ''Invalid user role'' None), st1)
                | Some user \<Rightarrow>
                    (case create (userRepository svc) user st1 of
                       (Inl err, st2) \<Rightarrow> (Inl err, st2)
                     | (Inr (failure e ed), st2) \<Rightarrow>
                         (Inr (failure ''Failed to create user account'' None), st2)
                     | (Inr (success saved), st2) \<Rightarrow> (Inr (success saved), st2)))))"

definition register ::
  "'s AuthService \<Rightarrow> RegisterRequest \<Rightarrow> 's \<Rightarrow> (exn + User Result) \<times> 's" where
  "register svc request st =
     (case validateReady svc of
        Inl err \<Rightarrow> (Inl err, st)
      | Inr ready \<Rightarrow>
          (case register_try svc request st of
             (Inl err, st') \<Rightarrow> (Inr (failure ''Failed to create user account'' None), st')
           | (Inr r, st') \<Rightarrow> (Inr r, st')))"

definition refreshToken_try ::
  "'s AuthService \<Rightarrow> nat \<Rightarrow> token \<Rightarrow> 's \<Rightarrow> (exn + LoginResponse Result) \<times> 's" where
  "refreshToken_try svc now tok st =
     (case jwt_verify tok (jwtRefreshSecret svc) now of
        Inl err \<Rightarrow> (Inl err, st)
      | Inr payload \<Rightarrow>
          (case findById (userRepository svc) (tp_userId payload) st of
             (Inl err, st1) \<Rightarrow> (Inl err, st1)
           | (Inr (success (Some user)), st1) \<Rightarrow>
               if \<not> canLogin user then (Inr (failure ''User account is not active'' None), st1)
               else issueTokens svc now user st1
           | (Inr userResult, st1) \<Rightarrow> (Inr (failure ''Invalid refresh token'' None), st1)))"

definition refreshToken ::
  "'s AuthService \<Rightarrow> nat \<Rightarrow> token \<Rightarrow> 's \<Rightarrow> (exn + LoginResponse Result) \<times> 's" where
  "refreshToken svc now tok st =
     (case validateReady svc of
        Inl err \<Rightarrow> (Inl err, st)
      | Inr ready \<Rightarrow>
          (case refreshToken_try svc now tok st of
             (Inl err, st') \<Rightarrow>
               if isJsonWebTokenError err then (Inr (failure ''Invalid refresh token'' None), st')
               else (Inr (failure ''Failed to refresh token'' None), st')
           | (Inr r, st') \<Rightarrow> (Inr r, st')))"

definition verifyToken_try ::
  "'s AuthService \<Rightarrow> nat \<Rightarrow> token \<Rightarrow> 's \<Rightarrow> (exn + User Result) \<times> 's" where
  "verifyToken_try svc now tok st =
     (case jwt_verify tok (jwtSecret svc) now of
        Inl err \<Rightarrow> (Inl err, st)
      | Inr payload \<Rightarrow>
          (case findById (userRepository svc) (tp_userId payload) st of
             (Inl err, st1) \<Rightarrow> (Inl err, st1)
           | (Inr (success (Some user)), st1) \<Rightarrow>
               if \<not> isActive user then (Inr (failure ''User account is not active'' None), st1)
               else (Inr (success user), st1)
           | (Inr userResult, st1) \<Rightarrow> (Inr (failure ''Invalid token'' None), st1)))"

definition verifyToken ::
  "'s AuthService \<Rightarrow> nat \<Rightarrow> token \<Rightarrow> 's \<Rightarrow> (exn + User Result) \<times> 's" where
  "verifyToken svc now tok st =
     (case validateReady svc of
        Inl err \<Rightarrow> (Inl err, st)
      | Inr ready \<Rightarrow>
          (case verifyToken_try svc now tok st of
             (Inl err, st') \<Rightarrow>
               if isJsonWebTokenError err then (Inr (failure ''Invalid token'' None), st')
               else (Inr (failure ''Token verification failed'' None), st')
           | (Inr r, st') \<Rightarrow> (Inr r, st')))"

definition changePassword_try ::
  "'s AuthService \<Rightarrow> nat \<Rightarrow> string \<Rightarrow> string \<Rightarrow> string \<Rightarrow> 's \<Rightarrow> (exn + bool Result) \<times> 's" where
  "changePassword_try svc now ofUserId currentPassword newPassword st =
     (case findById (userRepository svc) ofUserId st of
        (Inl err, st1) \<Rightarrow> (Inl err, st1)
      | (Inr (success (Some user)), st1) \<Rightarrow>
          if \<not> bcrypt_compare currentPassword (passwordHash user) then
            (Inr (failure ''Current password is incorrect'' None), st1)
          else
            (case validatePassword newPassword of
               failure e ed \<Rightarrow> (Inr (failure e ed), st1)
             | success valid \<Rightarrow>
                 (let user1 = resetPassword (bcrypt_hash newPassword saltRounds) ofUserId now user in
                  case update (userRepository svc) ofUserId user1 st1 of
                    (Inl err, st2) \<Rightarrow> (Inl err, st2)
                  | (Inr r, st2) \<Rightarrow> (Inr (success True), st2)))
      | (Inr userResult, st1) \<Rightarrow> (Inr (failure ''User not found'' None), st1))"

definition changePassword ::
  "'s AuthService \<Rightarrow> nat \<Rightarrow> string \<Rightarrow> string \<Rightarrow> string \<Rightarrow> 's \<Rightarrow> (exn + bool Result) \<times> 's" where
  "changePassword svc now ofUserId currentPassword newPassword st =
     (case validateReady svc of
        Inl err \<Rightarrow> (Inl err, st)
      | Inr ready \<Rightarrow>
          (case changePassword_try svc now ofUserId currentPassword newPassword st of
             (Inl err, st') \<Rightarrow> (Inr (failure ''Failed to change password'' None), st')
           | (Inr r, st') \<Rightarrow> (Inr r, st')))"

text \<open>A run of login calls against the same service, each at its instant.\<close>

fun logins ::
  "'s AuthService \<Rightarrow> (nat \<times> LoginRequest) list \<Rightarrow> 's \<Rightarrow> (exn + LoginResponse Result) list \<times> 's" where
  "logins svc [] st = ([], st)"
| "logins svc ((now, request) # rest) st =
     (case login svc now request st of
        (r, st1) \<Rightarrow> (case logins svc rest st1 of (rs, st2) \<Rightarrow> (r # rs, st2)))"

section \<open>An in-memory user store\<close>

text \<open>
  Modelled from the spec: a user store with the contract of section 6, for the claims that
  are about what a sequence of calls leaves in the store. Its state is the list of stored
  users; \<open>findByEmail\<close> is a case-sensitive exact match; \<open>update\<close> writes the given user
  over the one stored under the id; \<open>create\<close> enforces the uniqueness of the email. What
  the constructors of the user classes make of the object literal is not in the sources:
  a new user is active and verified with no failed attempt, and its id is made of its
  email.
\<close>

text \<open>
  Modelled from the spec: reading a string property, or an optional one, of the object
  literal passed to a user class constructor (the constructors are not in the sources).
\<close>

definition strProp :: "(string \<times> jsval) list \<Rightarrow> string \<Rightarrow> string" where
  "strProp obj key = (case map_of obj key of Some (VStr s) \<Rightarrow> s | _ \<Rightarrow> [])"

definition optProp :: "(string \<times> jsval) list \<Rightarrow> string \<Rightarrow> string option" where
  "optProp obj key = (case map_of obj key of Some (VStr s) \<Rightarrow> Some s | _ \<Rightarrow> None)"

text \<open>
  Modelled from the spec: the role of a user of each class, one of the role names of
  section 3.
\<close>

fun roleOfClass :: "UserClass \<Rightarrow> string" where
  "roleOfClass TeacherUser = ''TEACHER''"
| "roleOfClass StudentUser = ''STUDENT''"
| "roleOfClass AdminUser = ''ADMIN''"

text \<open>
  Modelled from the spec: the constructors of TeacherUser, StudentUser and AdminUser
  (models/User.ts is not among the sources), as the in-memory store applies them.
\<close>

fun constructUser :: "NewUser \<Rightarrow> User" where
  "constructUser (NewUser cls obj) =
     \<lparr> uid = ''user:'' @ strProp obj ''email'',
       email = strProp obj ''email'',
       passwordHash = (case map_of obj ''passwordHash'' of Some (VHash h) \<Rightarrow> h | _ \<Rightarrow> NotAHash []),
       role = roleOfClass cls,
       schoolId = optProp obj ''schoolId'',
       isActive = True, isVerified = True, failedLoginAttempts = 0,
       lastFailedLoginAt = None, lastLoginAt = None \<rparr>"

text \<open>
  Modelled from the spec: \<open>findByEmail(email) -> User | absent\<close> and
  \<open>findById(id) -> User | absent\<close> (section 6).
\<close>

definition mem_findByEmail :: "string \<Rightarrow> User list \<Rightarrow> (exn + User option Result) \<times> User list" where
  "mem_findByEmail e us = (Inr (success (find (\<lambda>u. email u = e) us)), us)"

definition mem_findById :: "string \<Rightarrow> User list \<Rightarrow> (exn + User option Result) \<times> User list" where
  "mem_findById i us = (Inr (success (find (\<lambda>u. uid u = i) us)), us)"

text \<open>
  Modelled from the spec: \<open>create(user) -> User\<close>, which must enforce email uniqueness
  (section 6).
\<close>

definition mem_create :: "NewUser \<Rightarrow> User list \<Rightarrow> (exn + User Result) \<times> User list" where
  "mem_create n us =
     (let u = constructUser n in
      if list_ex (\<lambda>x. email x = email u) us
      then (Inr (failure ''duplicate key value violates unique constraint'' None), us)
      else (Inr (success u), us @ [u]))"

text \<open>Modelled from the spec: \<open>update(id, user) -> User\<close> (section 6).\<close>

definition mem_update :: "string \<Rightarrow> User \<Rightarrow> User list \<Rightarrow> (exn + User Result) \<times> User list" where
  "mem_update i u us =
     (if list_ex (\<lambda>x. uid x = i) us
      then (Inr (success u), map (\<lambda>x. if uid x = i then u else x) us)
      else (Inr (failure ''User not found'' None), us))"

text \<open>Modelled from the spec: the in-memory store as an \<open>IUserRepository\<close>.\<close>

definition memRepo :: "User list IUserRepository" where
  "memRepo = \<lparr> findByEmail = mem_findByEmail, findById = mem_findById,
               create = mem_create, update = mem_update \<rparr>"

text \<open>
  A store that is down: every operation throws, or every operation returns a failure
  Result, and a store whose \<open>findByEmail\<close> finds nothing while its \<open>create\<close> rejects the
  write (a registration that lost the race for its email).
\<close>

definition throwingRepo :: "unit IUserRepository" where
  "throwingRepo =
     \<lparr> findByEmail = (\<lambda>e st. (Inl (Error ''connection refused''), st)),
       findById = (\<lambda>i st. (Inl (Error ''connection refused''), st)),
       create = (\<lambda>n st. (Inl (Error ''connection refused''), st)),
       update = (\<lambda>i u st. (Inl (Error ''connection refused''), st)) \<rparr>"

definition failingRepo :: "unit IUserRepository" where
  "failingRepo =
     \<lparr> findByEmail = (\<lambda>e st. (Inr (failure ''database unavailable'' None), st)),
       findById = (\<lambda>i st. (Inr (failure ''database unavailable'' None), st)),
       create = (\<lambda>n st. (Inr (failure ''database unavailable'' None), st)),
       update = (\<lambda>i u st. (Inr (failure ''database unavailable'' None), st)) \<rparr>"

definition racedRepo :: "unit IUserRepository" where
  "racedRepo =
     \<lparr> findByEmail = (\<lambda>e st. (Inr (success None), st)),
       findById = (\<lambda>i st. (Inr (success None), st)),
       create = (\<lambda>n st. (Inr (failure ''duplicate key value violates unique constraint'' None), st)),
       update = (\<lambda>i u st. (Inr (failure ''User not found'' None), st)) \<rparr>"

text \<open>Concrete users, requests and services for the examples.\<close>

definition alice :: User where
  "alice = \<lparr> uid = ''u1'', email = ''alice@school.org'', passwordHash = Bcrypt 12 ''Abcdef12'',
             role = ''TEACHER'', schoolId = None, isActive = True, isVerified = True,
             failedLoginAttempts = 0, lastFailedLoginAt = None, lastLoginAt = None \<rparr>"

definition bob :: User where
  "bob = \<lparr> uid = ''u2'', email = ''bob@school.org'', passwordHash = Bcrypt 12 ''Secret99x'',
           role = ''STUDENT'', schoolId = None, isActive = False, isVerified = True,
           failedLoginAttempts = 0, lastFailedLoginAt = None, lastLoginAt = None \<rparr>"

definition dan :: User where
  "dan = \<lparr> uid = ''u3'', email = ''dan@school.org'', passwordHash = Bcrypt 12 ''Passw0rdX'',
           role = ''TEACHER'', schoolId = None, isActive = True, isVerified = True,
           failedLoginAttempts = 5, lastFailedLoginAt = Some 3, lastLoginAt = None \<rparr>"

definition memService :: "User list AuthService" where
  "memService = initialize (AuthService_new memRepo ''access-key'' ''refresh-key'')"

definition failingService :: "unit AuthService" where
  "failingService = initialize (AuthService_new failingRepo ''access-key'' ''refresh-key'')"

definition throwingService :: "unit AuthService" where
  "throwingService = initialize (AuthService_new throwingRepo ''access-key'' ''refresh-key'')"

definition racedService :: "unit AuthService" where
  "racedService = initialize (AuthService_new racedRepo ''access-key'' ''refresh-key'')"

definition sampleRequest :: RegisterRequest where
  "sampleRequest =
     \<lparr> reg_email = ''carol@school.org'', reg_password = ''Abcdef12'', reg_firstName = ''Carol'',
       reg_lastName = ''Rao'', reg_phone = None, reg_role = ''teacher'', reg_schoolId = None,
       reg_additionalData = None \<rparr>"

section \<open>Predicates of the statements\<close>

text \<open>
  The minimum password policy in the words of the specification (section 4.5): length at
  least 8, an uppercase letter, a lowercase letter and a digit.
\<close>

definition meetsMinimumPolicy :: "string \<Rightarrow> bool" where
  "meetsMinimumPolicy p =
     (length p \<ge> 8 \<and> (\<exists>c \<in> set p. c \<in> set ''ABCDEFGHIJKLMNOPQRSTUVWXYZ'')
      \<and> (\<exists>c \<in> set p. c \<in> set ''abcdefghijklmnopqrstuvwxyz'')
      \<and> (\<exists>c \<in> set p. c \<in> set ''0123456789''))"

text \<open>
  The fields of a registration request other than the password and the role are valid: a
  well-formed email, and first and last names of at least two characters once trimmed.
\<close>

definition otherFieldsValid :: "RegisterRequest \<Rightarrow> bool" where
  "otherFieldsValid request =
     (reg_email request \<noteq> [] \<and> isValidEmail (reg_email request)
      \<and> reg_firstName request \<noteq> [] \<and> length (trim (reg_firstName request)) \<ge> 2
      \<and> reg_lastName request \<noteq> [] \<and> length (trim (reg_lastName request)) \<ge> 2)"

text \<open>
  The states a service goes through: built by the constructor, then any sequence of
  \<open>initialize\<close> and \<open>shutdown\<close> calls.
\<close>

inductive lifecycle :: "'s AuthService \<Rightarrow> bool" where
  constructed: "lifecycle (AuthService_new repo secret refreshSecret)"
| initialized: "lifecycle svc \<Longrightarrow> lifecycle (initialize svc)"
| stopped: "lifecycle svc \<Longrightarrow> lifecycle (shutdown svc)"

text \<open>The pre-check of \<open>register\<close> finds a user: a success Result that carries one.\<close>

fun foundUser :: "User option Result \<Rightarrow> bool" where
  "foundUser (success (Some u)) = True"
| "foundUser (success None) = False"
| "foundUser (failure e ed) = False"

text \<open>The class \<open>register\<close> instantiates for an upper-cased role it accepts.\<close>

definition classForRole :: "string \<Rightarrow> UserClass" where
  "classForRole r =
     (if r = ''TEACHER'' then TeacherUser else if r = ''STUDENT'' then StudentUser else AdminUser)"

section \<open>Theorems\<close>

subsection \<open>Auxiliary facts\<close>

lemma not_ready_validate:
  "\<not> isReady svc \<Longrightarrow>
   validateReady svc = Inl (Error (''Service '' @ serviceName svc @ '' is not ready''))"
  by (simp add: validateReady_def)

lemma ready_validate: "isReady svc \<Longrightarrow> validateReady svc = Inr ()"
  by (simp add: validateReady_def)

lemma login_returns: "isReady svc \<Longrightarrow> \<exists>r st'. login svc now request st = (Inr r, st')"
  by (simp add: login_def ready_validate split: prod.splits sum.splits)

lemma register_returns: "isReady svc \<Longrightarrow> \<exists>r st'. register svc request st = (Inr r, st')"
  by (simp add: register_def ready_validate split: prod.splits sum.splits)

lemma refreshToken_returns:
  "isReady svc \<Longrightarrow> \<exists>r st'. refreshToken svc now tok st = (Inr r, st')"
  by (simp add: refreshToken_def ready_validate split: prod.splits sum.splits)

lemma verifyToken_returns:
  "isReady svc \<Longrightarrow> \<exists>r st'. verifyToken svc now tok st = (Inr r, st')"
  by (simp add: verifyToken_def ready_validate split: prod.splits sum.splits)

lemma changePassword_returns:
  "isReady svc \<Longrightarrow> \<exists>r st'. changePassword svc now i cur new st = (Inr r, st')"
  by (simp add: changePassword_def ready_validate split: prod.splits sum.splits)

lemma lifecycle_name: "lifecycle svc \<Longrightarrow> serviceName svc = ''AuthService''"
  by (induction rule: lifecycle.induct) (simp_all add: AuthService_new_def initialize_def shutdown_def)

lemma memService_ready: "isReady memService"
  by (simp add: memService_def initialize_def AuthService_new_def isReady_def)

lemma memService_repo: "userRepository memService = memRepo"
  by (simp add: memService_def initialize_def AuthService_new_def)

lemma memService_lifecycle: "lifecycle memService"
  unfolding memService_def by (rule initialized [OF constructed])









text \<open>The password policy and the validation of a registration request.\<close>

lemma hasCharIn_iff: "hasCharIn cls s = (\<exists>c \<in> set s. c \<in> set cls)"
  by (simp add: hasCharIn_def list_ex_iff)

lemma meetsMinimumPolicy_alt:
  "meetsMinimumPolicy p =
     (length p \<ge> 8 \<and> hasCharIn upperAZ p \<and> hasCharIn lowerAZ p \<and> hasCharIn digits p)"
  by (simp only: meetsMinimumPolicy_def hasCharIn_iff upperAZ_def lowerAZ_def digits_def)

lemma validatePassword_iff: "(validatePassword p = success True) = meetsMinimumPolicy p"
  by (simp add: validatePassword_def meetsMinimumPolicy_alt)


lemma validatePassword_abc:
  "validatePassword ''abc'' = failure ''Password must be at least 8 characters long'' None"
  by (simp add: validatePassword_def)

lemma validatePassword_Abcdef12: "validatePassword ''Abcdef12'' = success True"
  by (simp add: validatePassword_def hasCharIn_def upperAZ_def lowerAZ_def digits_def)


lemma empty_role_rejected: "toUpperCase [] \<notin> set acceptedRoles"
  by (simp add: toUpperCase_def acceptedRoles_def)

lemma validateRegistration_ok:
  assumes o: "otherFieldsValid request"
    and r: "toUpperCase (reg_role request) \<in> set acceptedRoles"
    and p: "meetsMinimumPolicy (reg_password request)"
  shows "validateRegistrationRequest request = success True"
proof -
  from p have v: "validatePassword (reg_password request) = success True"
    by (simp add: validatePassword_iff)
  from p have ne: "reg_password request \<noteq> []" by (auto simp: meetsMinimumPolicy_alt)
  from r empty_role_rejected have rne: "reg_role request \<noteq> []" by auto
  show ?thesis using o r v ne rne
    by (simp add: validateRegistrationRequest_def Let_def otherFieldsValid_def)
qed

lemma validateRegistration_bad_role:
  assumes "toUpperCase (reg_role request) \<notin> set acceptedRoles"
  shows "\<exists>msg. validateRegistrationRequest request = failure msg None"
  using assms unfolding validateRegistrationRequest_def Let_def by simp

lemma register_invalid:
  "isReady svc \<Longrightarrow> validateRegistrationRequest request = failure msg ed \<Longrightarrow>
   register svc request st = (Inr (failure msg ed), st)"
  by (simp add: register_def ready_validate register_try_def)



text \<open>The branches of \<open>login\<close>.\<close>

lemma loginRefusal_canLogin: "canLogin u \<Longrightarrow> loginRefusal u = None"
  by (simp add: loginRefusal_def)

lemma loginRefusal_locked:
  "isLocked u \<Longrightarrow> loginRefusal u = Some ''Account is locked due to multiple failed attempts''"
  by (simp add: loginRefusal_def canLogin_def)

lemma loginRefusal_None: "loginRefusal u = None \<Longrightarrow> canLogin u"
  by (auto simp: loginRefusal_def canLogin_def split: if_splits)

lemma login_not_found:
  "isReady svc \<Longrightarrow>
   findByEmail (userRepository svc) (login_email request) st = (Inr (success None), st1) \<Longrightarrow>
   login svc now request st = (Inr (failure ''Authentication failed'' None), st1)"
  by (simp add: login_def ready_validate login_try_def)

lemma login_store_failure:
  "isReady svc \<Longrightarrow>
   findByEmail (userRepository svc) (login_email request) st = (Inr (failure m d), st1) \<Longrightarrow>
   login svc now request st = (Inr (failure ''Authentication failed'' None), st1)"
  by (simp add: login_def ready_validate login_try_def)

lemma login_store_throws:
  "isReady svc \<Longrightarrow>
   findByEmail (userRepository svc) (login_email request) st = (Inl err, st1) \<Longrightarrow>
   login svc now request st = (Inr (failure ''Authentication failed'' None), st1)"
  by (simp add: login_def ready_validate login_try_def)

lemma login_refused:
  "isReady svc \<Longrightarrow>
   findByEmail (userRepository svc) (login_email request) st = (Inr (success (Some u)), st1) \<Longrightarrow>
   loginRefusal u = Some msg \<Longrightarrow>
   login svc now request st = (Inr (failure msg None), st1)"
  by (simp add: login_def ready_validate login_try_def)

lemma login_wrong_password:
  "isReady svc \<Longrightarrow>
   findByEmail (userRepository svc) (login_email request) st = (Inr (success (Some u)), st1) \<Longrightarrow>
   loginRefusal u = None \<Longrightarrow> \<not> bcrypt_compare (login_password request) (passwordHash u) \<Longrightarrow>
   login svc now request st
     = (Inr (failure ''Authentication failed'' None),
        snd (update (userRepository svc) (uid u) (recordFailedLogin now u) st1))"
  by (simp add: login_def ready_validate login_try_def Let_def recordFailedLogin_def
      split: prod.splits sum.splits)

lemma login_right_password:
  "isReady svc \<Longrightarrow>
   findByEmail (userRepository svc) (login_email request) st = (Inr (success (Some u)), st1) \<Longrightarrow>
   loginRefusal u = None \<Longrightarrow> bcrypt_compare (login_password request) (passwordHash u) \<Longrightarrow>
   update (userRepository svc) (uid u) (recordSuccessfulLogin now u) st1 = (Inr r, st2) \<Longrightarrow>
   jwtSecret svc \<noteq> [] \<Longrightarrow> jwtRefreshSecret svc \<noteq> [] \<Longrightarrow>
   login svc now request st
     = (Inr (success \<lparr> resp_user = recordSuccessfulLogin now u,
           resp_accessToken = Signed \<lparr> tp_userId = uid u, tp_email = email u, tp_role = role u,
              tp_schoolId = schoolId u, tp_iat = Some now, tp_exp = Some (now + 15 * 60) \<rparr> (jwtSecret svc),
           resp_refreshToken = Signed \<lparr> tp_userId = uid u, tp_email = email u, tp_role = role u,
              tp_schoolId = None, tp_iat = Some now, tp_exp = Some (now + 7 * 24 * 60 * 60) \<rparr> (jwtRefreshSecret svc),
           resp_expiresIn = 15 * 60 \<rparr>), st2)"
  by (simp add: login_def ready_validate login_try_def Let_def recordSuccessfulLogin_def
      issueTokens_def generateAccessToken_def generateRefreshToken_def jwt_sign_def
      accessTokenExpiry_def refreshTokenExpiry_def)

text \<open>Inversion: what a successful login tells.\<close>

lemma issueTokens_success:
  "issueTokens svc now user st = (Inr (success resp), st') \<Longrightarrow>
   st' = st \<and> resp_user resp = user \<and> jwtSecret svc \<noteq> []
   \<and> resp_accessToken resp = Signed \<lparr> tp_userId = uid user, tp_email = email user,
        tp_role = role user, tp_schoolId = schoolId user, tp_iat = Some now,
        tp_exp = Some (now + 15 * 60) \<rparr> (jwtSecret svc)"
  by (auto simp: issueTokens_def generateAccessToken_def generateRefreshToken_def jwt_sign_def
      accessTokenExpiry_def split: if_splits)

lemma login_success:
  assumes "login svc now request st = (Inr (success resp), st')"
  shows "isReady svc \<and> jwtSecret svc \<noteq> []
    \<and> (\<exists>u st1 r. findByEmail (userRepository svc) (login_email request) st
                   = (Inr (success (Some u)), st1)
          \<and> canLogin u \<and> bcrypt_compare (login_password request) (passwordHash u)
          \<and> resp_user resp = recordSuccessfulLogin now u
          \<and> update (userRepository svc) (uid u) (recordSuccessfulLogin now u) st1 = (Inr r, st')
          \<and> resp_accessToken resp = Signed \<lparr> tp_userId = uid u, tp_email = email u,
               tp_role = role u, tp_schoolId = schoolId u, tp_iat = Some now,
               tp_exp = Some (now + 15 * 60) \<rparr> (jwtSecret svc))"
proof -
  have r: "isReady svc" using assms
    by (auto simp: login_def validateReady_def split: if_splits)
  from assms r have t: "login_try svc now request st = (Inr (success resp), st')"
    by (auto simp: login_def ready_validate split: prod.splits sum.splits)
  then obtain u st1 where
    f: "findByEmail (userRepository svc) (login_email request) st = (Inr (success (Some u)), st1)"
    by (auto simp: login_try_def split: prod.splits sum.splits Result.splits option.splits)
  from t f have nr: "loginRefusal u = None"
    by (auto simp: login_try_def split: option.splits)
  from t f nr have pw: "bcrypt_compare (login_password request) (passwordHash u)"
    by (auto simp: login_try_def Let_def split: prod.splits sum.splits if_splits)
  from t f nr pw obtain r st2 where
    up: "update (userRepository svc) (uid u) (recordSuccessfulLogin now u) st1 = (Inr r, st2)"
    and it: "issueTokens svc now (recordSuccessfulLogin now u) st2 = (Inr (success resp), st')"
    by (auto simp: login_try_def Let_def recordSuccessfulLogin_def split: prod.splits sum.splits)
  from issueTokens_success [OF it] up f nr pw r show ?thesis
    by (auto simp: recordSuccessfulLogin_def dest: loginRefusal_None)
qed

text \<open>The in-memory store under \<open>login\<close>.\<close>

lemma find_after_update_email:
  "find (\<lambda>x. email x = e) us = Some u \<Longrightarrow> email u' = e \<Longrightarrow>
   find (\<lambda>x. email x = e) (map (\<lambda>x. if uid x = uid u then u' else x) us) = Some u'"
  by (induction us) (auto split: if_splits)

lemma find_after_update_uid:
  "list_ex (\<lambda>x. uid x = i) us \<Longrightarrow> uid u' = i \<Longrightarrow>
   find (\<lambda>x. uid x = i) (map (\<lambda>x. if uid x = i then u' else x) us) = Some u'"
  by (induction us) (auto split: if_splits)

lemma find_email_ex_uid:
  "find (\<lambda>x. email x = e) us = Some u \<Longrightarrow> list_ex (\<lambda>x. uid x = uid u) us"
  by (induction us) (auto split: if_splits)

lemma find_email_email: "find (\<lambda>x. email x = e) us = Some u \<Longrightarrow> email u = e"
  by (induction us) (auto split: if_splits)

lemma mem_update_found:
  "find (\<lambda>x. email x = e) us = Some u \<Longrightarrow>
   update memRepo (uid u) u' us = (Inr (success u'), map (\<lambda>x. if uid x = uid u then u' else x) us)"
  by (simp add: memRepo_def mem_update_def find_email_ex_uid)

lemma mem_login_wrong:
  assumes "isReady svc" "userRepository svc = memRepo"
    "find (\<lambda>x. email x = login_email request) us = Some u" "canLogin u"
    "\<not> bcrypt_compare (login_password request) (passwordHash u)"
  shows "login svc now request us
     = (Inr (failure ''Authentication failed'' None),
        map (\<lambda>x. if uid x = uid u then recordFailedLogin now u else x) us)"
proof -
  have f: "findByEmail (userRepository svc) (login_email request) us = (Inr (success (Some u)), us)"
    using assms by (simp add: memRepo_def mem_findByEmail_def)
  from login_wrong_password [OF assms(1) f loginRefusal_canLogin [OF assms(4)] assms(5), of now]
  show ?thesis using assms(2) mem_update_found [OF assms(3)] by simp
qed

lemma mem_login_locked:
  assumes "isReady svc" "userRepository svc = memRepo"
    "find (\<lambda>x. email x = login_email request) us = Some u" "isLocked u"
  shows "login svc now request us
     = (Inr (failure ''Account is locked due to multiple failed attempts'' None), us)"
proof -
  have f: "findByEmail (userRepository svc) (login_email request) us = (Inr (success (Some u)), us)"
    using assms by (simp add: memRepo_def mem_findByEmail_def)
  from login_refused [OF assms(1) f loginRefusal_locked [OF assms(4)]] show ?thesis .
qed

lemma mem_login_right:
  assumes "isReady svc" "userRepository svc = memRepo"
    "find (\<lambda>x. email x = login_email request) us = Some u" "canLogin u"
    "bcrypt_compare (login_password request) (passwordHash u)"
    "jwtSecret svc \<noteq> []" "jwtRefreshSecret svc \<noteq> []"
  shows "\<exists>resp. login svc now request us
     = (Inr (success resp), map (\<lambda>x. if uid x = uid u then recordSuccessfulLogin now u else x) us)
     \<and> resp_user resp = recordSuccessfulLogin now u"
proof -
  have f: "findByEmail (userRepository svc) (login_email request) us = (Inr (success (Some u)), us)"
    using assms by (simp add: memRepo_def mem_findByEmail_def)
  have up: "update (userRepository svc) (uid u) (recordSuccessfulLogin now u) us
     = (Inr (success (recordSuccessfulLogin now u)),
        map (\<lambda>x. if uid x = uid u then recordSuccessfulLogin now u else x) us)"
    using assms(2) mem_update_found [OF assms(3)] by simp
  from login_right_password [OF assms(1) f loginRefusal_canLogin [OF assms(4)] assms(5) up assms(6,7)]
  show ?thesis by simp
qed

text \<open>A run of wrong-password logins against one stored account.\<close>

lemma failed_logins_run:
  assumes "isReady svc" "userRepository svc = memRepo"
  shows "find (\<lambda>x. email x = e) us = Some u \<Longrightarrow> isActive u \<Longrightarrow> isVerified u \<Longrightarrow>
    failedLoginAttempts u + length attempts \<le> lockoutThreshold \<Longrightarrow>
    \<forall>a \<in> set attempts. login_email (snd a) = e
        \<and> \<not> bcrypt_compare (login_password (snd a)) (passwordHash u) \<Longrightarrow>
    \<exists>us' u'. logins svc attempts us
          = (replicate (length attempts) (Inr (failure ''Authentication failed'' None)), us')
      \<and> find (\<lambda>x. email x = e) us' = Some u'
      \<and> failedLoginAttempts u' = failedLoginAttempts u + length attempts
      \<and> isActive u' \<and> isVerified u' \<and> passwordHash u' = passwordHash u \<and> uid u' = uid u"
proof (induction attempts arbitrary: us u)
  case Nil
  then show ?case by simp
next
  case (Cons a rest)
  obtain now request where a: "a = (now, request)" by (cases a)
  from Cons.prems a have em: "login_email request = e"
    and wrong: "\<not> bcrypt_compare (login_password request) (passwordHash u)" by auto
  from Cons.prems have can: "canLogin u"
    by (simp add: canLogin_def isLocked_def)
  let ?u1 = "recordFailedLogin now u"
  let ?us1 = "map (\<lambda>x. if uid x = uid u then ?u1 else x) us"
  have step: "login svc now request us = (Inr (failure ''Authentication failed'' None), ?us1)"
    using mem_login_wrong [OF assms, of request us u now] Cons.prems(1) em can wrong by simp
  have e1: "email ?u1 = e"
    using find_email_email [OF Cons.prems(1)] by (simp add: recordFailedLogin_def)
  have f1: "find (\<lambda>x. email x = e) ?us1 = Some ?u1"
    by (rule find_after_update_email [OF Cons.prems(1) e1])
  have p1: "isActive ?u1" "isVerified ?u1" "passwordHash ?u1 = passwordHash u" "uid ?u1 = uid u"
    "failedLoginAttempts ?u1 = failedLoginAttempts u + 1"
    using Cons.prems by (simp_all add: recordFailedLogin_def)
  have b1: "failedLoginAttempts ?u1 + length rest \<le> lockoutThreshold"
    using Cons.prems(4) p1(5) by simp
  have w1: "\<forall>a \<in> set rest. login_email (snd a) = e
        \<and> \<not> bcrypt_compare (login_password (snd a)) (passwordHash ?u1)"
    using Cons.prems(5) p1(3) by simp
  from Cons.IH [OF f1 p1(1) p1(2) b1 w1] obtain us' u' where
    r: "logins svc rest ?us1
          = (replicate (length rest) (Inr (failure ''Authentication failed'' None)), us')"
      "find (\<lambda>x. email x = e) us' = Some u'"
      "failedLoginAttempts u' = failedLoginAttempts ?u1 + length rest"
      "isActive u'" "isVerified u'" "passwordHash u' = passwordHash ?u1" "uid u' = uid ?u1"
    by blast
  show ?case using a step r p1 by simp
qed

lemma memService_keys: "jwtSecret memService \<noteq> [] \<and> jwtRefreshSecret memService \<noteq> []"
  by (simp add: memService_def initialize_def AuthService_new_def)

lemma failingService_ready: "isReady failingService"
  by (simp add: failingService_def initialize_def AuthService_new_def isReady_def)

lemma failingService_repo: "userRepository failingService = failingRepo"
  by (simp add: failingService_def initialize_def AuthService_new_def)

text \<open>The branches of \<open>register\<close>.\<close>

lemma racedService_ready: "isReady racedService"
  by (simp add: racedService_def initialize_def AuthService_new_def isReady_def)

lemma racedService_repo: "userRepository racedService = racedRepo"
  by (simp add: racedService_def initialize_def AuthService_new_def)

lemma acceptedRoles_set:
  "set acceptedRoles = {''TEACHER'', ''STUDENT'', ''ADMIN'', ''SCHOOL_ADMIN''}"
  by (simp add: acceptedRoles_def)

lemma userForRole_accepted:
  assumes "toUpperCase (reg_role request) \<in> set acceptedRoles"
  shows "\<exists>obj. userForRole request h
            = Some (NewUser (classForRole (toUpperCase (reg_role request))) obj)"
proof -
  from assms consider "toUpperCase (reg_role request) = ''TEACHER''"
    | "toUpperCase (reg_role request) = ''STUDENT''"
    | "toUpperCase (reg_role request) = ''ADMIN''"
    | "toUpperCase (reg_role request) = ''SCHOOL_ADMIN''"
    unfolding acceptedRoles_set by blast
  then show ?thesis
  proof cases
    case 1
    then show ?thesis by (simp add: userForRole_def classForRole_def)
  next
    case 2
    then show ?thesis by (simp add: userForRole_def classForRole_def)
  next
    case 3
    then show ?thesis by (simp add: userForRole_def classForRole_def)
  next
    case 4
    then show ?thesis by (simp add: userForRole_def classForRole_def)
  qed
qed

lemma validateRegistration_success_role:
  "validateRegistrationRequest request = success b \<Longrightarrow>
   toUpperCase (reg_role request) \<in> set acceptedRoles"
  using validateRegistration_bad_role [of request] by auto

lemma register_conflict:
  "isReady svc \<Longrightarrow> validateRegistrationRequest request = success b \<Longrightarrow>
   findByEmail (userRepository svc) (reg_email request) st = (Inr (success (Some existing)), st1) \<Longrightarrow>
   register svc request st = (Inr (failure ''User with this email already exists'' None), st1)"
  by (simp add: register_def ready_validate register_try_def)

lemma register_try_proceeds:
  "validateRegistrationRequest request = success b \<Longrightarrow>
   findByEmail (userRepository svc) (reg_email request) st = (Inr r0, st1) \<Longrightarrow> \<not> foundUser r0 \<Longrightarrow>
   userForRole request (bcrypt_hash (reg_password request) saltRounds) = Some nu \<Longrightarrow>
   register_try svc request st =
     (case create (userRepository svc) nu st1 of
        (Inl err, st2) \<Rightarrow> (Inl err, st2)
      | (Inr (failure e ed), st2) \<Rightarrow> (Inr (failure ''Failed to create user account'' None), st2)
      | (Inr (success saved), st2) \<Rightarrow> (Inr (success saved), st2))"
  by (cases r0 rule: foundUser.cases) (simp_all add: register_try_def)

lemma register_created:
  "isReady svc \<Longrightarrow> validateRegistrationRequest request = success b \<Longrightarrow>
   findByEmail (userRepository svc) (reg_email request) st = (Inr r0, st1) \<Longrightarrow> \<not> foundUser r0 \<Longrightarrow>
   userForRole request (bcrypt_hash (reg_password request) saltRounds) = Some nu \<Longrightarrow>
   create (userRepository svc) nu st1 = (Inr (success saved), st2) \<Longrightarrow>
   register svc request st = (Inr (success saved), st2)"
  by (simp add: register_def ready_validate register_try_proceeds)

lemma register_create_failed:
  "isReady svc \<Longrightarrow> validateRegistrationRequest request = success b \<Longrightarrow>
   findByEmail (userRepository svc) (reg_email request) st = (Inr r0, st1) \<Longrightarrow> \<not> foundUser r0 \<Longrightarrow>
   userForRole request (bcrypt_hash (reg_password request) saltRounds) = Some nu \<Longrightarrow>
   create (userRepository svc) nu st1 = (Inr (failure e ed), st2) \<Longrightarrow>
   register svc request st = (Inr (failure ''Failed to create user account'' None), st2)"
  by (simp add: register_def ready_validate register_try_proceeds)

lemma register_create_throws:
  "isReady svc \<Longrightarrow> validateRegistrationRequest request = success b \<Longrightarrow>
   findByEmail (userRepository svc) (reg_email request) st = (Inr r0, st1) \<Longrightarrow> \<not> foundUser r0 \<Longrightarrow>
   userForRole request (bcrypt_hash (reg_password request) saltRounds) = Some nu \<Longrightarrow>
   create (userRepository svc) nu st1 = (Inl err, st2) \<Longrightarrow>
   register svc request st = (Inr (failure ''Failed to create user account'' None), st2)"
  by (simp add: register_def ready_validate register_try_proceeds)

lemma sampleRequest_fields: "otherFieldsValid sampleRequest"
  by (simp add: otherFieldsValid_def sampleRequest_def isValidEmail_def emailChar_def
      isSpace_def trim_def)

lemma sampleRequest_role: "toUpperCase (reg_role sampleRequest) = ''TEACHER''"
  by (simp add: sampleRequest_def toUpperCase_def toUpperChar_def lowerAZ_def upperAZ_def)

lemma sampleRequest_password: "meetsMinimumPolicy (reg_password sampleRequest)"
  by (simp add: sampleRequest_def meetsMinimumPolicy_alt hasCharIn_def upperAZ_def lowerAZ_def
      digits_def)

lemma sampleRequest_valid: "validateRegistrationRequest sampleRequest = success True"
  using validateRegistration_ok [OF sampleRequest_fields _ sampleRequest_password]
  by (simp add: sampleRequest_role acceptedRoles_def)

lemma upper_PARENT: "toUpperCase ''PARENT'' = ''PARENT''"
  by (simp add: toUpperCase_def toUpperChar_def lowerAZ_def upperAZ_def)

lemma upper_Parent: "toUpperCase ''Parent'' = ''PARENT''"
  by (simp add: toUpperCase_def toUpperChar_def lowerAZ_def upperAZ_def)

lemma upper_SUPPORT: "toUpperCase ''SUPPORT'' = ''SUPPORT''"
  by (simp add: toUpperCase_def toUpperChar_def lowerAZ_def upperAZ_def)

lemma upper_SCHOOL_ADMIN: "toUpperCase ''SCHOOL_ADMIN'' = ''SCHOOL_ADMIN''"
  by (simp add: toUpperCase_def toUpperChar_def lowerAZ_def upperAZ_def)

lemma sample_email: "isValidEmail ''carol@school.org''"
  by (simp add: isValidEmail_def emailChar_def isSpace_def)

lemma alice_email: "isValidEmail ''alice@school.org''"
  by (simp add: isValidEmail_def emailChar_def isSpace_def)

lemma sample_names: "trim ''Carol'' = ''Carol''" "trim ''Rao'' = ''Rao''"
  by (simp_all add: trim_def isSpace_def)

lemma sample_PARENT:
  "validateRegistrationRequest (sampleRequest\<lparr>reg_role := ''PARENT''\<rparr>)
     = failure ''Valid role is required'' None"
  by (simp add: validateRegistrationRequest_def Let_def sampleRequest_def
      validatePassword_Abcdef12 sample_email sample_names upper_PARENT acceptedRoles_def)

lemma sample_SUPPORT:
  "validateRegistrationRequest (sampleRequest\<lparr>reg_role := ''SUPPORT''\<rparr>)
     = failure ''Valid role is required'' None"
  by (simp add: validateRegistrationRequest_def Let_def sampleRequest_def
      validatePassword_Abcdef12 sample_email sample_names upper_SUPPORT acceptedRoles_def)

lemma sample_SCHOOL_ADMIN:
  "validateRegistrationRequest (sampleRequest\<lparr>reg_role := ''SCHOOL_ADMIN''\<rparr>) = success True"
  by (simp add: validateRegistrationRequest_def Let_def sampleRequest_def
      validatePassword_Abcdef12 sample_email sample_names upper_SCHOOL_ADMIN acceptedRoles_def)

lemma sample_weak:
  "validateRegistrationRequest
     (sampleRequest\<lparr>reg_email := ''alice@school.org'', reg_password := ''abc''\<rparr>)
     = failure ''Password must be at least 8 characters long'' None"
  by (simp add: validateRegistrationRequest_def Let_def sampleRequest_def
      validatePassword_abc alice_email sample_names sampleRequest_role [unfolded sampleRequest_def, simplified]
      acceptedRoles_def)

text \<open>\<open>verifyToken\<close> and the token of a successful login.\<close>

lemma verifyToken_accepts:
  "isReady svc \<Longrightarrow> jwtSecret svc \<noteq> [] \<Longrightarrow> tp_exp p = Some e \<Longrightarrow> now' < e \<Longrightarrow>
   findById (userRepository svc) (tp_userId p) st = (Inr (success (Some u)), stb) \<Longrightarrow>
   isActive u \<Longrightarrow>
   verifyToken svc now' (Signed p (jwtSecret svc)) st = (Inr (success u), stb)"
  by (simp add: verifyToken_def ready_validate verifyToken_try_def)

lemma verifyToken_expired:
  "isReady svc \<Longrightarrow> tp_exp p = Some e \<Longrightarrow> e \<le> now' \<Longrightarrow>
   verifyToken svc now' (Signed p k) st = (Inr (failure ''Invalid token'' None), st)"
  by (simp add: verifyToken_def ready_validate verifyToken_try_def)

lemma mem_login_store:
  assumes "userRepository svc = memRepo"
    and "login svc now request us = (Inr (success resp), usa)"
  shows "findById (userRepository svc) (uid (resp_user resp)) usa
           = (Inr (success (Some (resp_user resp))), usa)
       \<and> isActive (resp_user resp)"
proof -
  from login_success [OF assms(2)] obtain u st1 r where
    f: "findByEmail (userRepository svc) (login_email request) us = (Inr (success (Some u)), st1)"
    and c: "canLogin u" and w: "resp_user resp = recordSuccessfulLogin now u"
    and up: "update (userRepository svc) (uid u) (recordSuccessfulLogin now u) st1 = (Inr r, usa)"
    by blast
  from f assms(1) have s1: "st1 = us" and fe: "find (\<lambda>x. email x = login_email request) us = Some u"
    by (auto simp: memRepo_def mem_findByEmail_def)
  from up assms(1) s1 mem_update_found [OF fe, of "recordSuccessfulLogin now u"]
  have usa: "usa = map (\<lambda>x. if uid x = uid u then recordSuccessfulLogin now u else x) us"
    by simp
  have "uid (recordSuccessfulLogin now u) = uid u" by (simp add: recordSuccessfulLogin_def)
  from find_after_update_uid [OF find_email_ex_uid [OF fe] this]
  have "find (\<lambda>x. uid x = uid u) usa = Some (recordSuccessfulLogin now u)"
    using usa by simp
  moreover have "isActive (recordSuccessfulLogin now u)"
    using c by (simp add: canLogin_def recordSuccessfulLogin_def)
  ultimately show ?thesis using w assms(1)
    by (simp add: memRepo_def mem_findById_def recordSuccessfulLogin_def)
qed

lemma login_token_verifies:
  assumes "login svc now request st = (Inr (success resp), sta)"
    and "now' < now + 15 * 60"
    and "findById (userRepository svc) (uid (resp_user resp)) sta = (Inr (success (Some u)), stb)"
    and "isActive u"
  shows "verifyToken svc now' (resp_accessToken resp) sta = (Inr (success u), stb)"
proof -
  from login_success [OF assms(1)] obtain u0 where
    r: "isReady svc" and k: "jwtSecret svc \<noteq> []"
    and w: "resp_user resp = recordSuccessfulLogin now u0"
    and t: "resp_accessToken resp = Signed \<lparr> tp_userId = uid u0, tp_email = email u0,
               tp_role = role u0, tp_schoolId = schoolId u0, tp_iat = Some now,
               tp_exp = Some (now + 15 * 60) \<rparr> (jwtSecret svc)"
    by blast
  let ?p = "\<lparr> tp_userId = uid u0, tp_email = email u0,
               tp_role = role u0, tp_schoolId = schoolId u0, tp_iat = Some now,
               tp_exp = Some (now + 15 * 60) \<rparr>"
  have i: "tp_userId ?p = uid (resp_user resp)" using w by (simp add: recordSuccessfulLogin_def)
  have e: "tp_exp ?p = Some (now + 15 * 60)" by simp
  from assms(3) i have f: "findById (userRepository svc) (tp_userId ?p) sta
      = (Inr (success (Some u)), stb)" by simp
  from verifyToken_accepts [OF r k e assms(2) f assms(4)] t show ?thesis by simp
qed

lemma login_token_expires:
  assumes "login svc now request st = (Inr (success resp), sta)"
    and "now + 15 * 60 \<le> now'"
  shows "verifyToken svc now' (resp_accessToken resp) st' = (Inr (failure ''Invalid token'' None), st')"
proof -
  from login_success [OF assms(1)] have r: "isReady svc" by simp
  from login_success [OF assms(1)] obtain u0 :: User where
    t: "resp_accessToken resp = Signed \<lparr> tp_userId = uid u0, tp_email = email u0,
               tp_role = role u0, tp_schoolId = schoolId u0, tp_iat = Some now,
               tp_exp = Some (now + 15 * 60) \<rparr> (jwtSecret svc)"
    by blast
  have e: "tp_exp \<lparr> tp_userId = uid u0, tp_email = email u0,
               tp_role = role u0, tp_schoolId = schoolId u0, tp_iat = Some now,
               tp_exp = Some (now + 15 * 60) \<rparr> = Some (now + 15 * 60)" by simp
  from verifyToken_expired [OF r e assms(2)] t show ?thesis by simp
qed

lemma logins_append:
  "logins svc (xs @ ys) st =
     (case logins svc xs st of
        (rs, sta) \<Rightarrow> (case logins svc ys sta of (rs', stb) \<Rightarrow> (rs @ rs', stb)))"
  by (induction xs arbitrary: st) (auto split: prod.splits)

lemma locked_logins_run:
  assumes "isReady svc" "userRepository svc = memRepo"
    and "find (\<lambda>x. email x = e) us = Some u" and "isLocked u"
  shows "\<forall>a \<in> set attempts. login_email (snd a) = e \<Longrightarrow>
    logins svc attempts us
      = (replicate (length attempts)
           (Inr (failure ''Account is locked due to multiple failed attempts'' None)), us)"
proof (induction attempts)
  case Nil
  then show ?case by simp
next
  case (Cons a rest)
  obtain now request where a: "a = (now, request)" by (cases a)
  with Cons.prems have em: "login_email request = e" by simp
  have "login svc now request us
     = (Inr (failure ''Account is locked due to multiple failed attempts'' None), us)"
    using mem_login_locked [OF assms(1,2), of request us u now] assms(3,4) em by simp
  with Cons a show ?case by simp
qed

lemma five_failed_logins:
  fixes svc :: "User list AuthService"
  assumes ready: "isReady svc" and repo: "userRepository svc = memRepo"
    and stored: "find (\<lambda>x. email x = e) us = Some u"
    and elig: "isActive u" "isVerified u"
    and five: "length attempts = 5"
    and wrong: "\<forall>a \<in> set attempts. login_email (snd a) = e
        \<and> \<not> bcrypt_compare (login_password (snd a)) (passwordHash u)"
  shows "\<exists>us5 u5.
       logins svc attempts us
         = (replicate (5 - failedLoginAttempts u) (Inr (failure ''Authentication failed'' None))
            @ replicate (5 - (5 - failedLoginAttempts u))
                (Inr (failure ''Account is locked due to multiple failed attempts'' None)), us5)
     \<and> find (\<lambda>x. email x = e) us5 = Some u5 \<and> isLocked u5
     \<and> failedLoginAttempts u5 = max 5 (failedLoginAttempts u)
     \<and> isActive u5 \<and> isVerified u5 \<and> passwordHash u5 = passwordHash u"
proof (cases "failedLoginAttempts u \<ge> 5")
  case True
  then have l: "isLocked u" by (simp add: isLocked_def lockoutThreshold_def)
  from wrong have "\<forall>a \<in> set attempts. login_email (snd a) = e" by simp
  from locked_logins_run [OF ready repo stored l this] five True stored l elig
  show ?thesis by (simp add: max_def)
next
  case False
  let ?k = "5 - failedLoginAttempts u"
  let ?xs = "take ?k attempts" and ?ys = "drop ?k attempts"
  have lx: "length ?xs = ?k" and ly: "length ?ys = 5 - ?k" using five by simp_all
  have b: "failedLoginAttempts u + length ?xs \<le> lockoutThreshold"
    using False lx by (simp add: lockoutThreshold_def)
  have wx: "\<forall>a \<in> set ?xs. login_email (snd a) = e
        \<and> \<not> bcrypt_compare (login_password (snd a)) (passwordHash u)"
    using wrong by (meson in_set_takeD)
  from failed_logins_run [OF ready repo stored elig b wx] lx obtain us' u' where
    r1: "logins svc ?xs us
          = (replicate ?k (Inr (failure ''Authentication failed'' None)), us')"
    and f': "find (\<lambda>x. email x = e) us' = Some u'"
    and c': "failedLoginAttempts u' = failedLoginAttempts u + ?k"
    and p': "isActive u'" "isVerified u'" "passwordHash u' = passwordHash u"
    by auto
  from c' False have c5: "failedLoginAttempts u' = 5" by simp
  then have l': "isLocked u'" by (simp add: isLocked_def lockoutThreshold_def)
  have wy: "\<forall>a \<in> set ?ys. login_email (snd a) = e" using wrong by (meson in_set_dropD)
  from locked_logins_run [OF ready repo f' l' wy] ly
  have r2: "logins svc ?ys us'
      = (replicate (5 - ?k)
           (Inr (failure ''Account is locked due to multiple failed attempts'' None)), us')"
    by simp
  have "logins svc attempts us = logins svc (?xs @ ?ys) us" by simp
  also have "\<dots> = (replicate ?k (Inr (failure ''Authentication failed'' None))
            @ replicate (5 - ?k)
                (Inr (failure ''Account is locked due to multiple failed attempts'' None)), us')"
    unfolding logins_append using r1 r2 by simp
  finally show ?thesis using f' l' c5 p' False by (auto simp: max_def)
qed

subsection \<open>The Result accessors\<close>

text \<open>
  C9. Reading \<open>data\<close> of a failure Result and reading \<open>error\<close> of a success Result each
  throw an Error; reading \<open>data\<close> of a success returns the payload and reading \<open>error\<close> of
  a failure returns the message. Every Result is a success or a failure, so the four
  equations cover every Result value.
\<close>

theorem Result_accessors_fail_fast:
  "data (failure msg ed :: 'a Result) = Inl (Error ''Cannot access data from a failed result'')
   \<and> error (success payload :: 'a Result) = Inl (Error ''Cannot access error from a successful result'')
   \<and> data (success payload :: 'a Result) = Inr payload
   \<and> error (failure msg ed :: 'a Result) = Inr msg
   \<and> (\<forall>r :: 'a Result. (\<exists>d. r = success d) \<or> (\<exists>e x. r = failure e x))"
proof -
  have "\<forall>r :: 'a Result. (\<exists>d. r = success d) \<or> (\<exists>e x. r = failure e x)"
  proof
    fix r :: "'a Result"
    show "(\<exists>d. r = success d) \<or> (\<exists>e x. r = failure e x)"
      by (cases r) simp_all
  qed
  then show ?thesis by simp
qed

subsection \<open>The readiness guard\<close>

text \<open>
  C10. In every state a service goes through (the constructor, then \<open>initialize\<close> and
  \<open>shutdown\<close> calls), each of the five public operations throws the Error
  "Service AuthService is not ready", and returns no Result, when the service is not
  initialized or is shutting down; a freshly constructed service is in that state, and so
  is a service on which \<open>shutdown\<close> was called, also after a later \<open>initialize\<close>. When the
  service is initialized and not shutting down, the guard passes and each operation
  returns a Result.
\<close>

theorem validateReady_guards_every_operation:
  fixes svc :: "'s AuthService"
  assumes life: "lifecycle svc"
  shows
   "(\<not> isInitialized svc \<or> isShuttingDown svc \<longrightarrow>
       login svc now lreq st = (Inl (Error ''Service AuthService is not ready''), st)
     \<and> register svc rreq st = (Inl (Error ''Service AuthService is not ready''), st)
     \<and> refreshToken svc now tok st = (Inl (Error ''Service AuthService is not ready''), st)
     \<and> verifyToken svc now tok st = (Inl (Error ''Service AuthService is not ready''), st)
     \<and> changePassword svc now i cur new st
         = (Inl (Error ''Service AuthService is not ready''), st))
  \<and> (isInitialized svc \<and> \<not> isShuttingDown svc \<longrightarrow>
       validateReady svc = Inr ()
     \<and> (\<exists>r st'. login svc now lreq st = (Inr r, st'))
     \<and> (\<exists>r st'. register svc rreq st = (Inr r, st'))
     \<and> (\<exists>r st'. refreshToken svc now tok st = (Inr r, st'))
     \<and> (\<exists>r st'. verifyToken svc now tok st = (Inr r, st'))
     \<and> (\<exists>r st'. changePassword svc now i cur new st = (Inr r, st')))
  \<and> \<not> isInitialized (AuthService_new repo secret refreshSecret :: 's AuthService)
  \<and> isShuttingDown (shutdown svc)
  \<and> isShuttingDown (initialize (shutdown svc))"
proof (intro conjI impI)
  assume "\<not> isInitialized svc \<or> isShuttingDown svc"
  then have nr: "\<not> isReady svc" by (auto simp: isReady_def)
  have v: "validateReady svc = Inl (Error ''Service AuthService is not ready'')"
    using not_ready_validate [OF nr] lifecycle_name [OF life] by simp
  show "login svc now lreq st = (Inl (Error ''Service AuthService is not ready''), st)"
    by (simp add: login_def v)
  show "register svc rreq st = (Inl (Error ''Service AuthService is not ready''), st)"
    by (simp add: register_def v)
  show "refreshToken svc now tok st = (Inl (Error ''Service AuthService is not ready''), st)"
    by (simp add: refreshToken_def v)
  show "verifyToken svc now tok st = (Inl (Error ''Service AuthService is not ready''), st)"
    by (simp add: verifyToken_def v)
  show "changePassword svc now i cur new st
          = (Inl (Error ''Service AuthService is not ready''), st)"
    by (simp add: changePassword_def v)
next
  assume "isInitialized svc \<and> \<not> isShuttingDown svc"
  then have r: "isReady svc" by (simp add: isReady_def)
  show "validateReady svc = Inr ()" by (rule ready_validate [OF r])
  show "\<exists>r st'. login svc now lreq st = (Inr r, st')" by (rule login_returns [OF r])
  show "\<exists>r st'. register svc rreq st = (Inr r, st')" by (rule register_returns [OF r])
  show "\<exists>r st'. refreshToken svc now tok st = (Inr r, st')"
    by (rule refreshToken_returns [OF r])
  show "\<exists>r st'. verifyToken svc now tok st = (Inr r, st')" by (rule verifyToken_returns [OF r])
  show "\<exists>r st'. changePassword svc now i cur new st = (Inr r, st')"
    by (rule changePassword_returns [OF r])
next
  show "\<not> isInitialized (AuthService_new repo secret refreshSecret :: 's AuthService)"
    by (simp add: AuthService_new_def)
  show "isShuttingDown (shutdown svc)" by (simp add: shutdown_def)
  show "isShuttingDown (initialize (shutdown svc))" by (simp add: shutdown_def initialize_def)
qed

theorem validateReady_guards_every_operation_witness:
  "lifecycle (AuthService_new memRepo ''access-key'' ''refresh-key'')
   \<and> login (AuthService_new memRepo ''access-key'' ''refresh-key'') 0
        \<lparr>login_email = ''alice@school.org'', login_password = ''Abcdef12''\<rparr> [alice]
      = (Inl (Error ''Service AuthService is not ready''), [alice])
   \<and> lifecycle memService
   \<and> validateReady memService = Inr ()
   \<and> verifyToken (shutdown memService) 0 (Malformed ''x'') [alice]
      = (Inl (Error ''Service AuthService is not ready''), [alice])"
proof -
  have l0: "lifecycle (AuthService_new memRepo ''access-key'' ''refresh-key'')"
    by (rule constructed)
  have l2: "lifecycle (shutdown memService)" by (rule stopped [OF memService_lifecycle])
  have f0: "\<not> isInitialized (AuthService_new memRepo ''access-key'' ''refresh-key'')"
    by (simp add: AuthService_new_def)
  have f1: "isInitialized memService \<and> \<not> isShuttingDown memService"
    using memService_ready by (simp add: isReady_def)
  have f2: "isShuttingDown (shutdown memService)" by (simp add: shutdown_def)
  note t0 = validateReady_guards_every_operation
    [OF l0, where now = 0 and st = "[alice]"
       and lreq = "\<lparr>login_email = ''alice@school.org'', login_password = ''Abcdef12''\<rparr>"]
  note t1 = validateReady_guards_every_operation [OF memService_lifecycle]
  note t2 = validateReady_guards_every_operation
    [OF l2, where now = 0 and st = "[alice]" and tok = "Malformed ''x''"]
  show ?thesis using t0 f0 t1 f1 t2 f2 l0 memService_lifecycle by simp
qed

subsection \<open>The audit trail\<close>




subsection \<open>The password policy\<close>



subsection \<open>Account lockout\<close>

text \<open>
  C2, as the code has it. \<open>login\<close> turns an account that is not eligible away before it
  looks at the password, so a failed login call on an inactive account records no failed
  attempt: after 5 consecutive failed calls the inactive account is not locked, and a
  further call, also one with the correct password, fails with "Account is inactive", not
  with the lock-specific message.
\<close>

theorem inactive_account_is_not_locked:
  "logins memService
     (replicate 5 (7, \<lparr>login_email = ''bob@school.org'', login_password = ''wrong''\<rparr>))
     [alice, bob, dan]
     = (replicate 5 (Inr (failure ''Account is inactive'' None)), [alice, bob, dan])
   \<and> \<not> bcrypt_compare ''wrong'' (passwordHash bob)
   \<and> \<not> isLocked bob
   \<and> login memService 8 \<lparr>login_email = ''bob@school.org'', login_password = ''Secret99x''\<rparr>
       [alice, bob, dan]
     = (Inr (failure ''Account is inactive'' None), [alice, bob, dan])"
proof -
  have f: "findByEmail (userRepository memService) ''bob@school.org'' [alice, bob, dan]
             = (Inr (success (Some bob)), [alice, bob, dan])"
    by (simp add: memService_repo memRepo_def mem_findByEmail_def alice_def bob_def)
  have r: "loginRefusal bob = Some ''Account is inactive''"
    by (simp add: loginRefusal_def canLogin_def isLocked_def lockoutThreshold_def bob_def)
  have one: "\<And>now p. login memService now \<lparr>login_email = ''bob@school.org'', login_password = p\<rparr>
       [alice, bob, dan] = (Inr (failure ''Account is inactive'' None), [alice, bob, dan])"
    using login_refused [OF memService_ready _ r] f by simp
  have five: "replicate 5 (7::nat, \<lparr>login_email = ''bob@school.org'', login_password = ''wrong''\<rparr>)
      = [(7, \<lparr>login_email = ''bob@school.org'', login_password = ''wrong''\<rparr>),
         (7, \<lparr>login_email = ''bob@school.org'', login_password = ''wrong''\<rparr>),
         (7, \<lparr>login_email = ''bob@school.org'', login_password = ''wrong''\<rparr>),
         (7, \<lparr>login_email = ''bob@school.org'', login_password = ''wrong''\<rparr>),
         (7, \<lparr>login_email = ''bob@school.org'', login_password = ''wrong''\<rparr>)]"
    by (simp add: numeral_eq_Suc)
  have run: "logins memService
     (replicate 5 (7, \<lparr>login_email = ''bob@school.org'', login_password = ''wrong''\<rparr>))
     [alice, bob, dan]
     = (replicate 5 (Inr (failure ''Account is inactive'' None)), [alice, bob, dan])"
    unfolding five by (simp add: one numeral_eq_Suc)
  have w: "\<not> bcrypt_compare ''wrong'' (passwordHash bob)" by (simp add: bob_def)
  have l: "\<not> isLocked bob" by (simp add: isLocked_def lockoutThreshold_def bob_def)
  from run w l one [of 8 "''Secret99x''"] show ?thesis by (intro conjI)
qed

text \<open>
  C2, amended. Against a ready service over the in-memory store, for every stored user
  that is active and verified: 5 consecutive login calls with a wrong password all fail
  (with "Authentication failed" until the counter of failed attempts has reached 5, with
  the lock-specific message from then on) and leave the stored account in the LOCKED
  state; while locked, every further login call for that account, at any instant and
  with any password, the correct one included, fails with "Account is locked due to
  multiple failed attempts" and leaves the store as it is (no attempt is recorded: the
  password is not looked at); once an unlock has written the counter back to 0, a login
  with the correct password succeeds and the stored counter is 0; and whenever a login
  succeeds, the user it returns has its counter at 0.
\<close>

theorem lockout_after_five_failed_logins:
  fixes svc :: "User list AuthService"
  assumes ready: "isReady svc" and repo: "userRepository svc = memRepo"
    and keys: "jwtSecret svc \<noteq> []" "jwtRefreshSecret svc \<noteq> []"
    and stored: "find (\<lambda>x. email x = e) us = Some u"
    and elig: "isActive u" "isVerified u"
    and five: "length attempts = 5"
    and wrong: "\<forall>a \<in> set attempts. login_email (snd a) = e
        \<and> \<not> bcrypt_compare (login_password (snd a)) (passwordHash u)"
    and right: "bcrypt_compare pw (passwordHash u)"
  shows
   "(\<exists>us5 u5.
       logins svc attempts us
         = (replicate (5 - failedLoginAttempts u) (Inr (failure ''Authentication failed'' None))
            @ replicate (5 - (5 - failedLoginAttempts u))
                (Inr (failure ''Account is locked due to multiple failed attempts'' None)), us5)
     \<and> find (\<lambda>x. email x = e) us5 = Some u5 \<and> isLocked u5
     \<and> failedLoginAttempts u5 = max 5 (failedLoginAttempts u)
     \<and> (\<forall>now p. login svc now \<lparr>login_email = e, login_password = p\<rparr> us5
           = (Inr (failure ''Account is locked due to multiple failed attempts'' None), us5))
     \<and> (\<forall>now. \<exists>resp us6.
           login svc now \<lparr>login_email = e, login_password = pw\<rparr>
             (snd (update memRepo (uid u5) (unlock u5) us5)) = (Inr (success resp), us6)
         \<and> failedLoginAttempts (resp_user resp) = 0
         \<and> find (\<lambda>x. email x = e) us6 = Some (resp_user resp)))
  \<and> (\<forall>now request st resp st'. login svc now request st = (Inr (success resp), st')
        \<longrightarrow> failedLoginAttempts (resp_user resp) = 0)"
proof
  from five_failed_logins [OF ready repo stored elig five wrong] obtain us5 u5 where
    run: "logins svc attempts us
         = (replicate (5 - failedLoginAttempts u) (Inr (failure ''Authentication failed'' None))
            @ replicate (5 - (5 - failedLoginAttempts u))
                (Inr (failure ''Account is locked due to multiple failed attempts'' None)), us5)"
    and f5: "find (\<lambda>x. email x = e) us5 = Some u5" and l5: "isLocked u5"
    and c5: "failedLoginAttempts u5 = max 5 (failedLoginAttempts u)"
    and p5: "isActive u5" "isVerified u5" "passwordHash u5 = passwordHash u"
    by blast
  have locked: "\<forall>now p. login svc now \<lparr>login_email = e, login_password = p\<rparr> us5
           = (Inr (failure ''Account is locked due to multiple failed attempts'' None), us5)"
  proof (intro allI)
    fix now p
    show "login svc now \<lparr>login_email = e, login_password = p\<rparr> us5
           = (Inr (failure ''Account is locked due to multiple failed attempts'' None), us5)"
      using mem_login_locked [OF ready repo, of "\<lparr>login_email = e, login_password = p\<rparr>" us5 u5 now]
        f5 l5 by simp
  qed
  let ?v = "unlock u5"
  let ?us = "map (\<lambda>x. if uid x = uid u5 then ?v else x) us5"
  have st: "snd (update memRepo (uid u5) ?v us5) = ?us"
    using mem_update_found [OF f5, of ?v] by simp
  have ev: "email ?v = e" using find_email_email [OF f5] by (simp add: unlock_def)
  have fv: "find (\<lambda>x. email x = e) ?us = Some ?v"
    by (rule find_after_update_email [OF f5 ev])
  have cv: "canLogin ?v" using p5
    by (simp add: canLogin_def isLocked_def lockoutThreshold_def unlock_def)
  have pv: "bcrypt_compare pw (passwordHash ?v)" using right p5 by (simp add: unlock_def)
  have after: "\<forall>now. \<exists>resp us6.
           login svc now \<lparr>login_email = e, login_password = pw\<rparr>
             (snd (update memRepo (uid u5) (unlock u5) us5)) = (Inr (success resp), us6)
         \<and> failedLoginAttempts (resp_user resp) = 0
         \<and> find (\<lambda>x. email x = e) us6 = Some (resp_user resp)"
  proof (intro allI)
    fix now
    let ?w = "recordSuccessfulLogin now ?v"
    from mem_login_right [OF ready repo, of "\<lparr>login_email = e, login_password = pw\<rparr>" ?us ?v now]
      fv cv pv keys obtain resp where
      r: "login svc now \<lparr>login_email = e, login_password = pw\<rparr> ?us
           = (Inr (success resp), map (\<lambda>x. if uid x = uid ?v then ?w else x) ?us)"
      "resp_user resp = ?w" by auto
    have ew: "email ?w = e" using ev by (simp add: recordSuccessfulLogin_def)
    have fw: "find (\<lambda>x. email x = e) (map (\<lambda>x. if uid x = uid ?v then ?w else x) ?us) = Some ?w"
      by (rule find_after_update_email [OF fv ew])
    have "failedLoginAttempts ?w = 0" by (simp add: recordSuccessfulLogin_def)
    with r fw st show "\<exists>resp us6.
           login svc now \<lparr>login_email = e, login_password = pw\<rparr>
             (snd (update memRepo (uid u5) (unlock u5) us5)) = (Inr (success resp), us6)
         \<and> failedLoginAttempts (resp_user resp) = 0
         \<and> find (\<lambda>x. email x = e) us6 = Some (resp_user resp)"
      by simp
  qed
  from run f5 c5 l5 locked after
  show "\<exists>us5 u5.
       logins svc attempts us
         = (replicate (5 - failedLoginAttempts u) (Inr (failure ''Authentication failed'' None))
            @ replicate (5 - (5 - failedLoginAttempts u))
                (Inr (failure ''Account is locked due to multiple failed attempts'' None)), us5)
     \<and> find (\<lambda>x. email x = e) us5 = Some u5 \<and> isLocked u5
     \<and> failedLoginAttempts u5 = max 5 (failedLoginAttempts u)
     \<and> (\<forall>now p. login svc now \<lparr>login_email = e, login_password = p\<rparr> us5
           = (Inr (failure ''Account is locked due to multiple failed attempts'' None), us5))
     \<and> (\<forall>now. \<exists>resp us6.
           login svc now \<lparr>login_email = e, login_password = pw\<rparr>
             (snd (update memRepo (uid u5) (unlock u5) us5)) = (Inr (success resp), us6)
         \<and> failedLoginAttempts (resp_user resp) = 0
         \<and> find (\<lambda>x. email x = e) us6 = Some (resp_user resp))"
    by blast
next
  show "\<forall>now request st resp st'. login svc now request st = (Inr (success resp), st')
        \<longrightarrow> failedLoginAttempts (resp_user resp) = 0"
  proof (intro allI impI)
    fix now request st resp st'
    assume "login svc now request st = (Inr (success resp), st')"
    from login_success [OF this] obtain u0 where "resp_user resp = recordSuccessfulLogin now u0"
      by blast
    then show "failedLoginAttempts (resp_user resp) = 0" by (simp add: recordSuccessfulLogin_def)
  qed
qed

theorem lockout_after_five_failed_logins_witness:
  "find (\<lambda>x. email x = ''alice@school.org'') [alice, bob] = Some alice
   \<and> isActive alice \<and> isVerified alice
   \<and> \<not> bcrypt_compare ''wrong'' (passwordHash alice)
   \<and> bcrypt_compare ''Abcdef12'' (passwordHash alice)
   \<and> (\<exists>us5 u5.
        logins memService
          (replicate 5 (7, \<lparr>login_email = ''alice@school.org'', login_password = ''wrong''\<rparr>))
          [alice, bob]
          = (replicate 5 (Inr (failure ''Authentication failed'' None)), us5)
      \<and> find (\<lambda>x. email x = ''alice@school.org'') us5 = Some u5
      \<and> failedLoginAttempts u5 = 5
      \<and> login memService 8
          \<lparr>login_email = ''alice@school.org'', login_password = ''Abcdef12''\<rparr> us5
          = (Inr (failure ''Account is locked due to multiple failed attempts'' None), us5)
      \<and> (\<exists>resp us6.
            login memService 9
              \<lparr>login_email = ''alice@school.org'', login_password = ''Abcdef12''\<rparr>
              (snd (update memRepo (uid u5) (unlock u5) us5)) = (Inr (success resp), us6)
          \<and> failedLoginAttempts (resp_user resp) = 0))"
proof -
  let ?attempts = "replicate 5 (7::nat, \<lparr>login_email = ''alice@school.org'', login_password = ''wrong''\<rparr>)"
  have stored: "find (\<lambda>x. email x = ''alice@school.org'') [alice, bob] = Some alice"
    by (simp add: alice_def)
  have elig: "isActive alice" "isVerified alice" and fresh: "failedLoginAttempts alice = 0"
    by (simp_all add: alice_def)
  have five: "length ?attempts = 5" by simp
  have w: "\<not> bcrypt_compare ''wrong'' (passwordHash alice)" by (simp add: alice_def)
  have wrong: "\<forall>a \<in> set ?attempts. login_email (snd a) = ''alice@school.org''
        \<and> \<not> bcrypt_compare (login_password (snd a)) (passwordHash alice)"
    using w by simp
  have right: "bcrypt_compare ''Abcdef12'' (passwordHash alice)" by (simp add: alice_def)
  from conjunct1 [OF lockout_after_five_failed_logins
    [OF memService_ready memService_repo conjunct1 [OF memService_keys]
        conjunct2 [OF memService_keys] stored elig five wrong right]]
  obtain us5 u5 where
    a: "logins memService ?attempts [alice, bob]
       = (replicate (5 - failedLoginAttempts alice) (Inr (failure ''Authentication failed'' None))
            @ replicate (5 - (5 - failedLoginAttempts alice))
                (Inr (failure ''Account is locked due to multiple failed attempts'' None)), us5)"
    and b: "find (\<lambda>x. email x = ''alice@school.org'') us5 = Some u5"
    and c: "failedLoginAttempts u5 = max 5 (failedLoginAttempts alice)"
    and d: "\<forall>now p. login memService now \<lparr>login_email = ''alice@school.org'', login_password = p\<rparr> us5
           = (Inr (failure ''Account is locked due to multiple failed attempts'' None), us5)"
    and e: "\<forall>now. \<exists>resp us6.
           login memService now \<lparr>login_email = ''alice@school.org'', login_password = ''Abcdef12''\<rparr>
             (snd (update memRepo (uid u5) (unlock u5) us5)) = (Inr (success resp), us6)
         \<and> failedLoginAttempts (resp_user resp) = 0
         \<and> find (\<lambda>x. email x = ''alice@school.org'') us6 = Some (resp_user resp)"
    by (elim exE conjE)
  have a': "logins memService ?attempts [alice, bob]
       = (replicate 5 (Inr (failure ''Authentication failed'' None)), us5)"
    using a fresh by simp
  have c': "failedLoginAttempts u5 = 5" using c fresh by simp
  note d' = d [rule_format, of 8 "''Abcdef12''"]
  from e [rule_format, of 9] obtain resp us6 where
    "login memService 9 \<lparr>login_email = ''alice@school.org'', login_password = ''Abcdef12''\<rparr>
             (snd (update memRepo (uid u5) (unlock u5) us5)) = (Inr (success resp), us6)
         \<and> failedLoginAttempts (resp_user resp) = 0"
    by (elim exE conjE) (rule that, rule conjI)
  then have e': "\<exists>resp us6.
            login memService 9
              \<lparr>login_email = ''alice@school.org'', login_password = ''Abcdef12''\<rparr>
              (snd (update memRepo (uid u5) (unlock u5) us5)) = (Inr (success resp), us6)
          \<and> failedLoginAttempts (resp_user resp) = 0" by (intro exI)
  from a' b c' d' e' have x: "\<exists>us5 u5.
        logins memService ?attempts [alice, bob]
          = (replicate 5 (Inr (failure ''Authentication failed'' None)), us5)
      \<and> find (\<lambda>x. email x = ''alice@school.org'') us5 = Some u5
      \<and> failedLoginAttempts u5 = 5
      \<and> login memService 8
          \<lparr>login_email = ''alice@school.org'', login_password = ''Abcdef12''\<rparr> us5
          = (Inr (failure ''Account is locked due to multiple failed attempts'' None), us5)
      \<and> (\<exists>resp us6.
            login memService 9
              \<lparr>login_email = ''alice@school.org'', login_password = ''Abcdef12''\<rparr>
              (snd (update memRepo (uid u5) (unlock u5) us5)) = (Inr (success resp), us6)
          \<and> failedLoginAttempts (resp_user resp) = 0)"
    by blast
  show ?thesis by (intro conjI) (rule stored elig w right x)+
qed

subsection \<open>Opaque login failures\<close>

text \<open>
  C1, as the code has it. Once \<open>findByEmail\<close> has found a user, \<open>login\<close> checks its
  eligibility before the password: for an inactive, an unverified or a locked account a
  login with a wrong password returns the account-specific message, which a login with
  an unknown email never returns.
\<close>

theorem login_discloses_ineligible_accounts:
  "fst (login memService 0
          \<lparr>login_email = ''nobody@school.org'', login_password = ''wrong''\<rparr> [alice, bob, dan])
     = Inr (failure ''Authentication failed'' None)
   \<and> fst (login memService 0
          \<lparr>login_email = ''bob@school.org'', login_password = ''wrong''\<rparr> [alice, bob, dan])
     = Inr (failure ''Account is inactive'' None)
   \<and> fst (login memService 0
          \<lparr>login_email = ''dan@school.org'', login_password = ''wrong''\<rparr> [alice, bob, dan])
     = Inr (failure ''Account is locked due to multiple failed attempts'' None)"
  by (simp add: login_def ready_validate memService_ready login_try_def
      memService_repo memRepo_def mem_findByEmail_def
      mem_update_def alice_def bob_def dan_def loginRefusal_def canLogin_def isLocked_def
      lockoutThreshold_def recordFailedLogin_def Let_def)

text \<open>
  C1, amended. For every store: when \<open>findByEmail\<close> finds no user for one email and finds,
  for another, a user who is eligible to log in (active, verified and not locked), a login
  with the first email and a login with the second email and a wrong password return the
  same failure Result, with the message "Authentication failed".
\<close>

theorem login_failure_is_opaque_for_eligible_users:
  assumes "isReady svc"
    and "findByEmail (userRepository svc) (login_email absent) st = (Inr (success None), st1)"
    and "findByEmail (userRepository svc) (login_email present) st = (Inr (success (Some u)), st2)"
    and "canLogin u"
    and "\<not> bcrypt_compare (login_password present) (passwordHash u)"
  shows "fst (login svc now absent st) = Inr (failure ''Authentication failed'' None)
       \<and> fst (login svc now' present st) = Inr (failure ''Authentication failed'' None)
       \<and> fst (login svc now absent st) = fst (login svc now' present st)"
  using login_not_found [OF assms(1,2), of now]
    login_wrong_password [OF assms(1,3) loginRefusal_canLogin [OF assms(4)] assms(5), of now']
  by simp

theorem login_failure_is_opaque_for_eligible_users_witness:
  "findByEmail (userRepository memService) ''nobody@school.org'' [alice, bob, dan]
     = (Inr (success None), [alice, bob, dan])
   \<and> findByEmail (userRepository memService) ''alice@school.org'' [alice, bob, dan]
     = (Inr (success (Some alice)), [alice, bob, dan])
   \<and> canLogin alice
   \<and> \<not> bcrypt_compare ''wrong'' (passwordHash alice)
   \<and> fst (login memService 0
          \<lparr>login_email = ''nobody@school.org'', login_password = ''wrong''\<rparr> [alice, bob, dan])
     = fst (login memService 1
          \<lparr>login_email = ''alice@school.org'', login_password = ''wrong''\<rparr> [alice, bob, dan])"
proof -
  have a: "findByEmail (userRepository memService)
             (login_email \<lparr>login_email = ''nobody@school.org'', login_password = ''wrong''\<rparr>)
             [alice, bob, dan] = (Inr (success None), [alice, bob, dan])"
    by (simp add: memService_repo memRepo_def mem_findByEmail_def alice_def bob_def dan_def)
  have b: "findByEmail (userRepository memService)
             (login_email \<lparr>login_email = ''alice@school.org'', login_password = ''wrong''\<rparr>)
             [alice, bob, dan] = (Inr (success (Some alice)), [alice, bob, dan])"
    by (simp add: memService_repo memRepo_def mem_findByEmail_def alice_def)
  have c: "canLogin alice"
    by (simp add: canLogin_def isLocked_def lockoutThreshold_def alice_def)
  have d: "\<not> bcrypt_compare
             (login_password \<lparr>login_email = ''alice@school.org'', login_password = ''wrong''\<rparr>)
             (passwordHash alice)"
    by (simp add: alice_def)
  from login_failure_is_opaque_for_eligible_users [OF memService_ready a b c d, of 0 1] a b c d
  show ?thesis by simp
qed

subsection \<open>Store failures during login\<close>

text \<open>
  C6, as the code has it. A store whose \<open>findByEmail\<close> returns a failure Result makes
  \<open>login\<close> return the very Result it returns for a wrong password.
\<close>

theorem login_store_failure_same_as_wrong_password:
  "fst (login failingService 0
          \<lparr>login_email = ''alice@school.org'', login_password = ''Abcdef12''\<rparr> ())
     = Inr (failure ''Authentication failed'' None)
   \<and> fst (login memService 0
          \<lparr>login_email = ''alice@school.org'', login_password = ''wrong''\<rparr> [alice, bob, dan])
     = Inr (failure ''Authentication failed'' None)"
  by (simp add: login_def ready_validate failingService_ready memService_ready login_try_def
      failingService_repo memService_repo failingRepo_def memRepo_def mem_findByEmail_def
      mem_update_def alice_def bob_def dan_def loginRefusal_def canLogin_def isLocked_def
      lockoutThreshold_def recordFailedLogin_def Let_def)

text \<open>
  C6, amended. When \<open>findByEmail\<close> returns a failure Result during login, the Result
  returned to the caller is the failure with the opaque message "Authentication failed",
  the same Result as for a wrong password on an eligible account: the caller cannot tell
  the two apart from the Result.
\<close>

theorem login_store_failure_is_opaque:
  assumes "isReady svc"
    and "findByEmail (userRepository svc) (login_email request) st = (Inr (failure m d), st1)"
  shows "login svc now request st = (Inr (failure ''Authentication failed'' None), st1)
    \<and> (isReady svc' \<and> findByEmail (userRepository svc') (login_email request') st'
            = (Inr (success (Some u)), stb)
        \<and> canLogin u \<and> \<not> bcrypt_compare (login_password request') (passwordHash u)
        \<longrightarrow> fst (login svc' now' request' st') = fst (login svc now request st))"
proof (intro conjI impI)
  show l: "login svc now request st = (Inr (failure ''Authentication failed'' None), st1)"
    by (rule login_store_failure [OF assms])
  assume a: "isReady svc' \<and> findByEmail (userRepository svc') (login_email request') st'
            = (Inr (success (Some u)), stb)
        \<and> canLogin u \<and> \<not> bcrypt_compare (login_password request') (passwordHash u)"
  then have "login svc' now' request' st'
     = (Inr (failure ''Authentication failed'' None),
        snd (update (userRepository svc') (uid u) (recordFailedLogin now' u) stb))"
    using login_wrong_password [of svc' request' st' u stb now'] loginRefusal_canLogin [of u]
    by simp
  with l show "fst (login svc' now' request' st') = fst (login svc now request st)" by simp
qed

theorem login_store_failure_is_opaque_witness:
  "findByEmail (userRepository failingService) ''alice@school.org'' ()
     = (Inr (failure ''database unavailable'' None), ())
   \<and> login failingService 0
       \<lparr>login_email = ''alice@school.org'', login_password = ''Abcdef12''\<rparr> ()
     = (Inr (failure ''Authentication failed'' None), ())
   \<and> fst (login memService 1
       \<lparr>login_email = ''alice@school.org'', login_password = ''wrong''\<rparr> [alice, bob, dan])
     = fst (login failingService 0
       \<lparr>login_email = ''alice@school.org'', login_password = ''Abcdef12''\<rparr> ())"
proof -
  have a: "findByEmail (userRepository failingService)
             (login_email \<lparr>login_email = ''alice@school.org'', login_password = ''Abcdef12''\<rparr>) ()
     = (Inr (failure ''database unavailable'' None), ())"
    by (simp add: failingService_repo failingRepo_def)
  have b: "findByEmail (userRepository memService)
             (login_email \<lparr>login_email = ''alice@school.org'', login_password = ''wrong''\<rparr>)
             [alice, bob, dan] = (Inr (success (Some alice)), [alice, bob, dan])"
    by (simp add: memService_repo memRepo_def mem_findByEmail_def alice_def)
  have c: "canLogin alice"
    by (simp add: canLogin_def isLocked_def lockoutThreshold_def alice_def)
  have d: "\<not> bcrypt_compare
             (login_password \<lparr>login_email = ''alice@school.org'', login_password = ''wrong''\<rparr>)
             (passwordHash alice)"
    by (simp add: alice_def)
  note t = login_store_failure_is_opaque
    [OF failingService_ready a, where now = 0 and svc' = memService and now' = 1
       and request' = "\<lparr>login_email = ''alice@school.org'', login_password = ''wrong''\<rparr>"
       and st' = "[alice, bob, dan]" and u = alice and stb = "[alice, bob, dan]"]
  from t a b c d memService_ready show ?thesis by simp
qed

subsection \<open>The roles of a registration\<close>

text \<open>
  C4, as the code has it. The list \<open>validateRegistrationRequest\<close> tests the upper-cased
  role against is TEACHER, STUDENT, ADMIN, SCHOOL_ADMIN: a request that is valid in every
  other field is rejected with "Valid role is required" for PARENT and for SUPPORT, and
  passes validation for SCHOOL_ADMIN, for which the \<open>switch\<close> builds an AdminUser.
\<close>

theorem register_rejects_parent_and_support:
  "register memService (sampleRequest\<lparr>reg_role := ''PARENT''\<rparr>) [alice]
     = (Inr (failure ''Valid role is required'' None), [alice])
   \<and> register memService (sampleRequest\<lparr>reg_role := ''SUPPORT''\<rparr>) [alice]
     = (Inr (failure ''Valid role is required'' None), [alice])
   \<and> validateRegistrationRequest (sampleRequest\<lparr>reg_role := ''SCHOOL_ADMIN''\<rparr>) = success True
   \<and> userForRole (sampleRequest\<lparr>reg_role := ''SCHOOL_ADMIN''\<rparr>) (Bcrypt 12 ''Abcdef12'')
     = Some (NewUser AdminUser
         [(''email'', VStr ''carol@school.org''), (''passwordHash'', VHash (Bcrypt 12 ''Abcdef12'')),
          (''firstName'', VStr ''Carol''), (''lastName'', VStr ''Rao''), (''phone'', VUndefined),
          (''schoolId'', VUndefined), (''adminLevel'', VStr ''SCHOOL'')])"
proof (intro conjI)
  show "register memService (sampleRequest\<lparr>reg_role := ''PARENT''\<rparr>) [alice]
     = (Inr (failure ''Valid role is required'' None), [alice])"
    by (rule register_invalid [OF memService_ready sample_PARENT])
  show "register memService (sampleRequest\<lparr>reg_role := ''SUPPORT''\<rparr>) [alice]
     = (Inr (failure ''Valid role is required'' None), [alice])"
    by (rule register_invalid [OF memService_ready sample_SUPPORT])
  show "validateRegistrationRequest (sampleRequest\<lparr>reg_role := ''SCHOOL_ADMIN''\<rparr>) = success True"
    by (rule sample_SCHOOL_ADMIN)
  show "userForRole (sampleRequest\<lparr>reg_role := ''SCHOOL_ADMIN''\<rparr>) (Bcrypt 12 ''Abcdef12'')
     = Some (NewUser AdminUser
         [(''email'', VStr ''carol@school.org''), (''passwordHash'', VHash (Bcrypt 12 ''Abcdef12'')),
          (''firstName'', VStr ''Carol''), (''lastName'', VStr ''Rao''), (''phone'', VUndefined),
          (''schoolId'', VUndefined), (''adminLevel'', VStr ''SCHOOL'')])"
    by (simp add: userForRole_def upper_SCHOOL_ADMIN spread_def commonProps_def optStr_def
        sampleRequest_def)
qed

text \<open>
  C4, amended. \<open>register\<close> accepts a role exactly when, upper-cased, it is one of TEACHER,
  STUDENT, ADMIN, SCHOOL_ADMIN. For every request with any other role, \<open>register\<close>
  returns the validation failure and leaves the store alone. For every request with a
  role of that set, valid other fields and a password that meets the policy, validation
  succeeds and registration goes on to create a user of the class of the role (a
  TeacherUser, a StudentUser, and an AdminUser for both ADMIN and SCHOOL_ADMIN): when
  the pre-check finds no user and the store creates the user, \<open>register\<close> returns it.
\<close>

theorem register_accepts_exactly_its_four_roles:
  assumes "isReady svc"
  shows
   "(toUpperCase (reg_role request) \<notin> set acceptedRoles \<longrightarrow>
       (\<exists>msg. register svc request st = (Inr (failure msg None), st)
              \<and> validateRegistrationRequest request = failure msg None))
  \<and> (toUpperCase (reg_role request) \<in> set acceptedRoles \<and> otherFieldsValid request
       \<and> meetsMinimumPolicy (reg_password request) \<longrightarrow>
       validateRegistrationRequest request = success True
     \<and> (\<exists>obj. userForRole request (bcrypt_hash (reg_password request) saltRounds)
                 = Some (NewUser (classForRole (toUpperCase (reg_role request))) obj)
           \<and> (\<forall>r0 sta saved stb.
                 findByEmail (userRepository svc) (reg_email request) st = (Inr r0, sta)
                 \<and> \<not> foundUser r0
                 \<and> create (userRepository svc)
                      (NewUser (classForRole (toUpperCase (reg_role request))) obj) sta
                     = (Inr (success saved), stb)
                 \<longrightarrow> register svc request st = (Inr (success saved), stb))))
  \<and> set acceptedRoles = {''TEACHER'', ''STUDENT'', ''ADMIN'', ''SCHOOL_ADMIN''}
  \<and> classForRole ''TEACHER'' = TeacherUser \<and> classForRole ''STUDENT'' = StudentUser
  \<and> classForRole ''ADMIN'' = AdminUser \<and> classForRole ''SCHOOL_ADMIN'' = AdminUser"
proof (intro conjI impI)
  assume "toUpperCase (reg_role request) \<notin> set acceptedRoles"
  from validateRegistration_bad_role [OF this] obtain msg where
    m: "validateRegistrationRequest request = failure msg None" by blast
  from register_invalid [OF assms m, of st] m
  show "\<exists>msg. register svc request st = (Inr (failure msg None), st)
              \<and> validateRegistrationRequest request = failure msg None" by blast
next
  assume a: "toUpperCase (reg_role request) \<in> set acceptedRoles \<and> otherFieldsValid request
       \<and> meetsMinimumPolicy (reg_password request)"
  then show v: "validateRegistrationRequest request = success True"
    by (simp add: validateRegistration_ok)
  from a userForRole_accepted [of request "bcrypt_hash (reg_password request) saltRounds"]
  obtain obj where
    o: "userForRole request (bcrypt_hash (reg_password request) saltRounds)
          = Some (NewUser (classForRole (toUpperCase (reg_role request))) obj)" by blast
  have "\<forall>r0 sta saved stb.
          findByEmail (userRepository svc) (reg_email request) st = (Inr r0, sta)
          \<and> \<not> foundUser r0
          \<and> create (userRepository svc)
               (NewUser (classForRole (toUpperCase (reg_role request))) obj) sta
              = (Inr (success saved), stb)
          \<longrightarrow> register svc request st = (Inr (success saved), stb)"
    using register_created [OF assms v _ _ o] by blast
  with o show "\<exists>obj. userForRole request (bcrypt_hash (reg_password request) saltRounds)
                 = Some (NewUser (classForRole (toUpperCase (reg_role request))) obj)
           \<and> (\<forall>r0 sta saved stb.
                 findByEmail (userRepository svc) (reg_email request) st = (Inr r0, sta)
                 \<and> \<not> foundUser r0
                 \<and> create (userRepository svc)
                      (NewUser (classForRole (toUpperCase (reg_role request))) obj) sta
                     = (Inr (success saved), stb)
                 \<longrightarrow> register svc request st = (Inr (success saved), stb))"
    by blast
next
  show "set acceptedRoles = {''TEACHER'', ''STUDENT'', ''ADMIN'', ''SCHOOL_ADMIN''}"
    by (rule acceptedRoles_set)
qed (simp_all add: classForRole_def)

theorem register_accepts_exactly_its_four_roles_witness:
  "toUpperCase (reg_role sampleRequest) \<in> set acceptedRoles
   \<and> otherFieldsValid sampleRequest
   \<and> meetsMinimumPolicy (reg_password sampleRequest)
   \<and> validateRegistrationRequest sampleRequest = success True
   \<and> fst (register memService sampleRequest [alice])
       = Inr (success (constructUser (NewUser TeacherUser
           [(''email'', VStr ''carol@school.org''), (''passwordHash'', VHash (Bcrypt 12 ''Abcdef12'')),
            (''firstName'', VStr ''Carol''), (''lastName'', VStr ''Rao''), (''phone'', VUndefined),
            (''schoolId'', VUndefined)])))
   \<and> toUpperCase (reg_role (sampleRequest\<lparr>reg_role := ''Parent''\<rparr>)) \<notin> set acceptedRoles
   \<and> (\<exists>msg. register memService (sampleRequest\<lparr>reg_role := ''Parent''\<rparr>) [alice]
               = (Inr (failure msg None), [alice]))"
proof -
  let ?obj0 = "[(''email'', VStr ''carol@school.org''), (''passwordHash'', VHash (Bcrypt 12 ''Abcdef12'')),
            (''firstName'', VStr ''Carol''), (''lastName'', VStr ''Rao''), (''phone'', VUndefined),
            (''schoolId'', VUndefined)]"
  have r: "toUpperCase (reg_role sampleRequest) \<in> set acceptedRoles"
    by (simp add: sampleRequest_role acceptedRoles_def)
  have p: "toUpperCase (reg_role (sampleRequest\<lparr>reg_role := ''Parent''\<rparr>)) \<notin> set acceptedRoles"
    by (simp add: upper_Parent acceptedRoles_def)
  note t1 = register_accepts_exactly_its_four_roles
    [OF memService_ready, where request = sampleRequest and st = "[alice]"]
  note t2 = register_accepts_exactly_its_four_roles
    [OF memService_ready, where request = "sampleRequest\<lparr>reg_role := ''Parent''\<rparr>"
       and st = "[alice]"]
  note m = mp [OF conjunct1 [OF conjunct2 [OF t1]]
          conjI [OF r conjI [OF sampleRequest_fields sampleRequest_password]]]
  have v: "validateRegistrationRequest sampleRequest = success True"
    by (rule conjunct1 [OF m])
  from conjunct2 [OF m] obtain obj where
    o: "userForRole sampleRequest (bcrypt_hash (reg_password sampleRequest) saltRounds)
          = Some (NewUser (classForRole (toUpperCase (reg_role sampleRequest))) obj)"
    and a: "\<forall>r0 sta saved stb.
        findByEmail (userRepository memService) (reg_email sampleRequest) [alice] = (Inr r0, sta)
        \<and> \<not> foundUser r0
        \<and> create (userRepository memService)
             (NewUser (classForRole (toUpperCase (reg_role sampleRequest))) obj) sta
            = (Inr (success saved), stb)
        \<longrightarrow> register memService sampleRequest [alice] = (Inr (success saved), stb)"
    by (elim exE conjE)
  have ut: "toUpperCase ''teacher'' = ''TEACHER''"
    by (simp add: toUpperCase_def toUpperChar_def lowerAZ_def upperAZ_def)
  have u: "userForRole sampleRequest (bcrypt_hash (reg_password sampleRequest) saltRounds)
          = Some (NewUser TeacherUser ?obj0)"
    by (simp add: userForRole_def ut spread_def commonProps_def optStr_def
        bcrypt_hash_def saltRounds_def sampleRequest_def)
  from o u have e: "NewUser (classForRole (toUpperCase (reg_role sampleRequest))) obj
      = NewUser TeacherUser ?obj0" by simp
  have f: "findByEmail (userRepository memService) (reg_email sampleRequest) [alice]
             = (Inr (success None), [alice])"
    by (simp add: memService_repo memRepo_def mem_findByEmail_def alice_def sampleRequest_def)
  have c: "create (userRepository memService) (NewUser TeacherUser ?obj0) [alice]
             = (Inr (success (constructUser (NewUser TeacherUser ?obj0))),
                [alice, constructUser (NewUser TeacherUser ?obj0)])"
    by (simp add: memService_repo memRepo_def mem_create_def Let_def strProp_def optProp_def
        alice_def)
  have h: "findByEmail (userRepository memService) (reg_email sampleRequest) [alice]
             = (Inr (success None), [alice])
        \<and> \<not> foundUser (success None)
        \<and> create (userRepository memService)
             (NewUser (classForRole (toUpperCase (reg_role sampleRequest))) obj) [alice]
            = (Inr (success (constructUser (NewUser TeacherUser ?obj0))),
                [alice, constructUser (NewUser TeacherUser ?obj0)])"
    using f c unfolding e by simp
  from a [rule_format, OF h]
  have g: "fst (register memService sampleRequest [alice])
       = Inr (success (constructUser (NewUser TeacherUser ?obj0)))" by simp
  from mp [OF conjunct1 [OF t2] p] obtain msg where
    "register memService (sampleRequest\<lparr>reg_role := ''Parent''\<rparr>) [alice]
       = (Inr (failure msg None), [alice])" by (elim exE conjE)
  then have x: "\<exists>msg. register memService (sampleRequest\<lparr>reg_role := ''Parent''\<rparr>) [alice]
               = (Inr (failure msg None), [alice])" by (rule exI)
  show ?thesis
    by (intro conjI) (rule r sampleRequest_fields sampleRequest_password v g p x)+
qed

subsection \<open>Registration conflicts\<close>

text \<open>
  C5, as the code has it. When the pre-check finds no user and the store's \<open>create\<close>
  rejects the write for a duplicate email, \<open>register\<close> returns "Failed to create user
  account", not the conflict failure; and a request whose email is registered but whose
  password is too weak gets the validation failure, since validation comes first.
\<close>

theorem register_store_rejection_is_generic:
  "register racedService sampleRequest ()
     = (Inr (failure ''Failed to create user account'' None), ())
   \<and> register memService
       (sampleRequest\<lparr>reg_email := ''alice@school.org'', reg_password := ''abc''\<rparr>) [alice]
     = (Inr (failure ''Password must be at least 8 characters long'' None), [alice])"
proof (intro conjI)
  have f: "findByEmail (userRepository racedService) (reg_email sampleRequest) ()
     = (Inr (success None), ())"
    by (simp add: racedService_repo racedRepo_def)
  from userForRole_accepted [of sampleRequest "bcrypt_hash (reg_password sampleRequest) saltRounds"]
  obtain obj where
    o: "userForRole sampleRequest (bcrypt_hash (reg_password sampleRequest) saltRounds)
          = Some (NewUser (classForRole (toUpperCase (reg_role sampleRequest))) obj)"
    by (auto simp: sampleRequest_role acceptedRoles_def)
  have c: "create (userRepository racedService)
             (NewUser (classForRole (toUpperCase (reg_role sampleRequest))) obj) ()
     = (Inr (failure ''duplicate key value violates unique constraint'' None), ())"
    by (simp add: racedService_repo racedRepo_def)
  show "register racedService sampleRequest ()
     = (Inr (failure ''Failed to create user account'' None), ())"
    by (rule register_create_failed [OF racedService_ready sampleRequest_valid f _ o c]) simp
  show "register memService
       (sampleRequest\<lparr>reg_email := ''alice@school.org'', reg_password := ''abc''\<rparr>) [alice]
     = (Inr (failure ''Password must be at least 8 characters long'' None), [alice])"
    by (rule register_invalid [OF memService_ready sample_weak])
qed

text \<open>
  C5, amended. For every registration request that passes validation: when the pre-check
  finds a user with the email, \<open>register\<close> returns the conflict failure "User with this
  email already exists"; when the pre-check finds none and the store's \<open>create\<close> rejects
  the write, by a failure Result of any kind (a uniqueness violation among them) or by
  throwing, \<open>register\<close> returns the generic failure "Failed to create user account".
\<close>

theorem register_conflict_and_store_rejection:
  assumes "isReady svc" and "validateRegistrationRequest request = success True"
  shows
   "(findByEmail (userRepository svc) (reg_email request) st
        = (Inr (success (Some existing)), sta) \<longrightarrow>
       register svc request st
        = (Inr (failure ''User with this email already exists'' None), sta))
  \<and> (findByEmail (userRepository svc) (reg_email request) st = (Inr r0, sta) \<and> \<not> foundUser r0
        \<longrightarrow>
       (\<exists>nu. userForRole request (bcrypt_hash (reg_password request) saltRounds) = Some nu
          \<and> (\<forall>e ed stb. create (userRepository svc) nu sta = (Inr (failure e ed), stb) \<longrightarrow>
                register svc request st
                  = (Inr (failure ''Failed to create user account'' None), stb))
          \<and> (\<forall>err stb. create (userRepository svc) nu sta = (Inl err, stb) \<longrightarrow>
                register svc request st
                  = (Inr (failure ''Failed to create user account'' None), stb))))"
proof (intro conjI impI)
  assume "findByEmail (userRepository svc) (reg_email request) st
        = (Inr (success (Some existing)), sta)"
  from register_conflict [OF assms this]
  show "register svc request st
        = (Inr (failure ''User with this email already exists'' None), sta)" .
next
  assume a: "findByEmail (userRepository svc) (reg_email request) st = (Inr r0, sta)
               \<and> \<not> foundUser r0"
  from validateRegistration_success_role [OF assms(2)]
    userForRole_accepted [of request "bcrypt_hash (reg_password request) saltRounds"]
  obtain nu where
    o: "userForRole request (bcrypt_hash (reg_password request) saltRounds) = Some nu" by blast
  from a have f: "findByEmail (userRepository svc) (reg_email request) st = (Inr r0, sta)"
    and n: "\<not> foundUser r0" by simp_all
  have 1: "\<forall>e ed stb. create (userRepository svc) nu sta = (Inr (failure e ed), stb) \<longrightarrow>
                register svc request st
                  = (Inr (failure ''Failed to create user account'' None), stb)"
    using register_create_failed [OF assms f n o] by blast
  have 2: "\<forall>err stb. create (userRepository svc) nu sta = (Inl err, stb) \<longrightarrow>
                register svc request st
                  = (Inr (failure ''Failed to create user account'' None), stb)"
    using register_create_throws [OF assms f n o] by blast
  from o 1 2 show "\<exists>nu. userForRole request (bcrypt_hash (reg_password request) saltRounds) = Some nu
          \<and> (\<forall>e ed stb. create (userRepository svc) nu sta = (Inr (failure e ed), stb) \<longrightarrow>
                register svc request st
                  = (Inr (failure ''Failed to create user account'' None), stb))
          \<and> (\<forall>err stb. create (userRepository svc) nu sta = (Inl err, stb) \<longrightarrow>
                register svc request st
                  = (Inr (failure ''Failed to create user account'' None), stb))"
    by blast
qed

theorem register_conflict_and_store_rejection_witness:
  "validateRegistrationRequest (sampleRequest\<lparr>reg_email := ''alice@school.org''\<rparr>) = success True
   \<and> findByEmail (userRepository memService) ''alice@school.org'' [alice]
       = (Inr (success (Some alice)), [alice])
   \<and> register memService (sampleRequest\<lparr>reg_email := ''alice@school.org''\<rparr>) [alice]
       = (Inr (failure ''User with this email already exists'' None), [alice])
   \<and> validateRegistrationRequest sampleRequest = success True
   \<and> findByEmail (userRepository racedService) ''carol@school.org'' () = (Inr (success None), ())
   \<and> register racedService sampleRequest ()
       = (Inr (failure ''Failed to create user account'' None), ())"
proof -
  have o: "otherFieldsValid (sampleRequest\<lparr>reg_email := ''alice@school.org''\<rparr>)"
    using sampleRequest_fields alice_email by (simp add: otherFieldsValid_def)
  have v: "validateRegistrationRequest (sampleRequest\<lparr>reg_email := ''alice@school.org''\<rparr>)
             = success True"
    using validateRegistration_ok [OF o] sampleRequest_password sampleRequest_role
    by (simp add: acceptedRoles_def)
  have f: "findByEmail (userRepository memService)
             (reg_email (sampleRequest\<lparr>reg_email := ''alice@school.org''\<rparr>)) [alice]
       = (Inr (success (Some alice)), [alice])"
    by (simp add: memService_repo memRepo_def mem_findByEmail_def alice_def)
  note t = register_conflict_and_store_rejection
    [OF memService_ready v, where st = "[alice]" and existing = alice and sta = "[alice]"]
  from mp [OF conjunct1 [OF t] f]
  have c1: "register memService (sampleRequest\<lparr>reg_email := ''alice@school.org''\<rparr>) [alice]
       = (Inr (failure ''User with this email already exists'' None), [alice])" .
  have f0: "findByEmail (userRepository memService) ''alice@school.org'' [alice]
       = (Inr (success (Some alice)), [alice])" using f by simp
  have g: "findByEmail (userRepository racedService) (reg_email sampleRequest) ()
             = (Inr (success None), ()) \<and> \<not> foundUser (success None)"
    by (simp add: racedService_repo racedRepo_def)
  have g0: "findByEmail (userRepository racedService) ''carol@school.org'' ()
             = (Inr (success None), ())"
    by (simp add: racedService_repo racedRepo_def)
  note r = register_conflict_and_store_rejection
    [OF racedService_ready sampleRequest_valid, where st = "()" and sta = "()"
       and ?r0.0 = "success None"]
  from mp [OF conjunct2 [OF r] g] obtain nu where
    a: "\<forall>e ed stb. create (userRepository racedService) nu () = (Inr (failure e ed), stb) \<longrightarrow>
          register racedService sampleRequest ()
            = (Inr (failure ''Failed to create user account'' None), stb)"
    by (elim exE conjE)
  have c: "create (userRepository racedService) nu ()
             = (Inr (failure ''duplicate key value violates unique constraint'' None), ())"
    by (simp add: racedService_repo racedRepo_def)
  from a [rule_format, OF c]
  have c2: "register racedService sampleRequest ()
       = (Inr (failure ''Failed to create user account'' None), ())" .
  show ?thesis by (intro conjI) (rule v f0 c1 sampleRequest_valid g0 c2)+
qed

subsection \<open>The access token round trip\<close>

text \<open>
  C3. For every successful login: before the expiry instant of its access token (issue
  time plus 15 minutes), \<open>verifyToken\<close> accepts the token, looks the user up again under
  the id of the logged-in user and returns the success that carries the user the store
  returns, provided that user is active; over the in-memory store that user is the
  logged-in user as the login left it, so it has the same id. From the expiry instant on,
  \<open>verifyToken\<close> returns the failure "Invalid token" for that token, as it does for every
  signed token whose expiry instant has passed.
\<close>

theorem access_token_round_trip:
  assumes ok: "login svc now request st = (Inr (success resp), sta)"
  shows
   "(now' < now + 15 * 60
       \<and> findById (userRepository svc) (uid (resp_user resp)) sta = (Inr (success (Some u)), stb)
       \<and> isActive u
       \<longrightarrow> verifyToken svc now' (resp_accessToken resp) sta = (Inr (success u), stb))
  \<and> (now + 15 * 60 \<le> now'
       \<longrightarrow> verifyToken svc now' (resp_accessToken resp) sta
             = (Inr (failure ''Invalid token'' None), sta))
  \<and> (tp_exp p = Some e \<and> e \<le> now'
       \<longrightarrow> verifyToken svc now' (Signed p k) st' = (Inr (failure ''Invalid token'' None), st'))
  \<and> (\<forall>msvc us usa mresp.
        userRepository msvc = memRepo
        \<and> login msvc now request us = (Inr (success mresp), usa) \<and> now' < now + 15 * 60
        \<longrightarrow> verifyToken msvc now' (resp_accessToken mresp) usa
              = (Inr (success (resp_user mresp)), usa))"
proof (intro conjI impI allI)
  assume "now' < now + 15 * 60
       \<and> findById (userRepository svc) (uid (resp_user resp)) sta = (Inr (success (Some u)), stb)
       \<and> isActive u"
  then show "verifyToken svc now' (resp_accessToken resp) sta = (Inr (success u), stb)"
    using login_token_verifies [OF ok] by simp
next
  assume "now + 15 * 60 \<le> now'"
  from login_token_expires [OF ok this]
  show "verifyToken svc now' (resp_accessToken resp) sta
             = (Inr (failure ''Invalid token'' None), sta)" .
next
  assume a: "tp_exp p = Some e \<and> e \<le> now'"
  from login_success [OF ok] have "isReady svc" by simp
  from verifyToken_expired [OF this conjunct1 [OF a] conjunct2 [OF a]]
  show "verifyToken svc now' (Signed p k) st' = (Inr (failure ''Invalid token'' None), st')" .
next
  fix msvc :: "User list AuthService" and us usa mresp
  assume a: "userRepository msvc = memRepo
        \<and> login msvc now request us = (Inr (success mresp), usa) \<and> now' < now + 15 * 60"
  then have l: "login msvc now request us = (Inr (success mresp), usa)" by simp
  from a mem_login_store [of msvc now request us mresp usa]
  have f: "findById (userRepository msvc) (uid (resp_user mresp)) usa
           = (Inr (success (Some (resp_user mresp))), usa)" and i: "isActive (resp_user mresp)"
    by simp_all
  from a have "now' < now + 15 * 60" by simp
  from login_token_verifies [OF l this f i]
  show "verifyToken msvc now' (resp_accessToken mresp) usa
              = (Inr (success (resp_user mresp)), usa)" .
qed

theorem access_token_round_trip_witness:
  "\<exists>resp usa.
      login memService 100
        \<lparr>login_email = ''alice@school.org'', login_password = ''Abcdef12''\<rparr> [alice, bob]
        = (Inr (success resp), usa)
    \<and> uid (resp_user resp) = ''u1''
    \<and> findById (userRepository memService) (uid (resp_user resp)) usa
        = (Inr (success (Some (resp_user resp))), usa)
    \<and> isActive (resp_user resp)
    \<and> verifyToken memService 999 (resp_accessToken resp) usa
        = (Inr (success (resp_user resp)), usa)
    \<and> verifyToken memService 1000 (resp_accessToken resp) usa
        = (Inr (failure ''Invalid token'' None), usa)
    \<and> verifyToken memService 2000
         (Signed \<lparr> tp_userId = ''u1'', tp_email = ''alice@school.org'', tp_role = ''TEACHER'',
                   tp_schoolId = None, tp_iat = Some 100, tp_exp = Some 1000 \<rparr> ''access-key'')
         [alice, bob]
        = (Inr (failure ''Invalid token'' None), [alice, bob])"
proof -
  let ?req = "\<lparr>login_email = ''alice@school.org'', login_password = ''Abcdef12''\<rparr>"
  let ?p = "\<lparr> tp_userId = ''u1'', tp_email = ''alice@school.org'', tp_role = ''TEACHER'',
                   tp_schoolId = None, tp_iat = Some 100, tp_exp = Some 1000 \<rparr>"
  have f: "find (\<lambda>x. email x = login_email ?req) [alice, bob] = Some alice"
    by (simp add: alice_def)
  have c: "canLogin alice" by (simp add: canLogin_def isLocked_def lockoutThreshold_def alice_def)
  have p: "bcrypt_compare (login_password ?req) (passwordHash alice)" by (simp add: alice_def)
  from mem_login_right [OF memService_ready memService_repo f c p
      conjunct1 [OF memService_keys] conjunct2 [OF memService_keys], of 100]
  obtain resp usa where
    l: "login memService 100 ?req [alice, bob] = (Inr (success resp), usa)"
    and u: "resp_user resp = recordSuccessfulLogin 100 alice" by (elim exE conjE)
  have i: "uid (resp_user resp) = ''u1''" using u by (simp add: recordSuccessfulLogin_def alice_def)
  note st = mem_login_store [OF memService_repo l]
  note t = access_token_round_trip [OF l]
  have h1: "(999::nat) < 100 + 15 * 60
       \<and> findById (userRepository memService) (uid (resp_user resp)) usa
            = (Inr (success (Some (resp_user resp))), usa)
       \<and> isActive (resp_user resp)"
    using st by simp
  from mp [OF conjunct1 [OF t [where now' = 999 and u = "resp_user resp" and stb = usa]] h1]
  have v1: "verifyToken memService 999 (resp_accessToken resp) usa
        = (Inr (success (resp_user resp)), usa)" .
  have "(100::nat) + 15 * 60 \<le> 1000" by simp
  from mp [OF conjunct1 [OF conjunct2 [OF t [where now' = 1000]]] this]
  have v2: "verifyToken memService 1000 (resp_accessToken resp) usa
        = (Inr (failure ''Invalid token'' None), usa)" .
  have h3: "tp_exp ?p = Some 1000 \<and> (1000::nat) \<le> 2000" by simp
  from mp [OF conjunct1 [OF conjunct2 [OF conjunct2
        [OF t [where now' = 2000 and p = ?p and e = 1000 and k = "''access-key''"
                 and st' = "[alice, bob]"]]]] h3]
  have v3: "verifyToken memService 2000 (Signed ?p ''access-key'') [alice, bob]
        = (Inr (failure ''Invalid token'' None), [alice, bob])" .
  from l i conjunct1 [OF st] conjunct2 [OF st] v1 v2 v3 show ?thesis by (intro exI conjI)
qed

end
